theory Spec2Isabelle
  imports Complex_Main
begin

section \<open>Conventions of the embedding\<close>

text \<open>
  The development embeds three modules of the repository:
  \<^item> \<^verbatim>\<open>ya_glm/glm_pen_max_lasso.py\<close>: the gradients at zero and the four path-top bounds;
  \<^item> \<^verbatim>\<open>yaglm/opt/constraint/convex.py\<close>: the simplex and L1-ball projections;
  \<^item> \<^verbatim>\<open>yaglm/solver/Cvxpy.py\<close>: the applicability probe, \<^verbatim>\<open>setup\<close> and \<^verbatim>\<open>solve\<close>.

  Numbers. A float64 is a \<^typ>\<open>real\<close>; there is no overflow and no infinity. In
  \<^verbatim>\<open>glm_pen_max_lasso.py\<close> arithmetic is taken to be exact: rounding moves a bound within
  the last place and decides no branch there. In \<^verbatim>\<open>convex.py\<close> rounding decides whether
  \<^verbatim>\<open>project_simplex\<close> returns or raises, so every arithmetic operation of that module is
  followed by the rounding \<open>fl64\<close> to the nearest float64. NaN and \<^verbatim>\<open>None\<close> are modelled
  where the source tests for them, that is in the entries of a weights array. Where
  numpy would produce NaN by itself (the mean of no entries, an array divided by a row
  count of zero) the value of the model has no meaning; no statement below evaluates
  the model there.

  Arrays. A numpy array of one axis is \<open>Vec\<close> of a list, an array of two axes is \<open>Mat\<close>
  of the list of its rows (all rows of one length, as numpy's arrays are dense). A
  matrix without rows does not record its number of columns, so the design matrix is
  taken to have at least one row wherever that number matters.

  Errors. Every exception that the embedded code can raise is a value \<open>Inl e\<close> of the
  result; \<open>Inr v\<close> is a normal return.
\<close>

datatype error =
    NotImplementedError | ValueError | IndexError | TypeError | AssertionError
  | AttributeError | ModuleNotFoundError | ZeroDivisionError | AxisError

datatype 'a ndarray = Vec "'a list" | Mat "'a list list"

section \<open>The fragment of numpy that the sources use\<close>

definition ncols :: "'a list list \<Rightarrow> nat" where
  "ncols m = (case m of [] \<Rightarrow> 0 | r # _ \<Rightarrow> length r)"

text \<open>All entries in row-major order, the order of \<^verbatim>\<open>reshape(-1)\<close>.\<close>

definition flat :: "'a ndarray \<Rightarrow> 'a list" where
  "flat a = (case a of Vec v \<Rightarrow> v | Mat m \<Rightarrow> concat m)"

text \<open>\<^verbatim>\<open>len(a)\<close>, which is \<^verbatim>\<open>a.shape[0]\<close>.\<close>

definition len0 :: "'a ndarray \<Rightarrow> nat" where
  "len0 a = (case a of Vec v \<Rightarrow> length v | Mat m \<Rightarrow> length m)"

text \<open>\<^verbatim>\<open>np.mean(a)\<close> and \<^verbatim>\<open>a.mean()\<close>: the mean of all entries.\<close>

definition np_mean :: "real ndarray \<Rightarrow> real" where
  "np_mean a = sum_list (flat a) / real (length (flat a))"

text \<open>\<^verbatim>\<open>m.mean(axis=0)\<close> of a matrix: one mean per column.\<close>

definition col_means :: "real list list \<Rightarrow> real list" where
  "col_means m = map (\<lambda>c. sum_list c / real (length c)) (transpose m)"

text \<open>\<^verbatim>\<open>y - y.mean(axis=0)\<close>: for one axis the mean is a scalar, for two axes the
  vector of column means is subtracted from every row.\<close>

definition sub_mean_axis0 :: "real ndarray \<Rightarrow> real ndarray" where
  "sub_mean_axis0 y =
     (case y of
        Vec v \<Rightarrow> Vec (map (\<lambda>t. t - np_mean (Vec v)) v)
      | Mat m \<Rightarrow> Mat (map (\<lambda>r. map2 (-) r (col_means m)) m))"

definition dot :: "real list \<Rightarrow> real list \<Rightarrow> real" where
  "dot a b = sum_list (map2 (*) a b)"

text \<open>\<^verbatim>\<open>X.T @ a\<close> for the design matrix \<open>X\<close> (a list of rows): the first axis of \<open>a\<close>
  has to be as long as \<open>X\<close> has rows, otherwise numpy raises ValueError.\<close>

definition XT_matmul :: "real list list \<Rightarrow> real ndarray \<Rightarrow> error + real ndarray" where
  "XT_matmul X a =
     (case a of
        Vec v \<Rightarrow>
          if length v = length X then Inr (Vec (map (\<lambda>c. dot c v) (transpose X)))
          else Inl ValueError
      | Mat m \<Rightarrow>
          if length m = length X
          then Inr (Mat (map (\<lambda>c. map (dot c) (transpose m)) (transpose X)))
          else Inl ValueError)"

text \<open>Broadcasting of an elementwise binary operation over arrays of one or two axes:
  two axis lengths are compatible when they are equal or one of them is 1. \<open>bc2\<close> pairs
  the entries along one axis; its last case is not reached for compatible lengths.\<close>

definition bc_ok :: "nat \<Rightarrow> nat \<Rightarrow> bool" where
  "bc_ok m k = (m = k \<or> m = 1 \<or> k = 1)"

definition bc2 :: "('a \<Rightarrow> 'b \<Rightarrow> 'c) \<Rightarrow> 'a list \<Rightarrow> 'b list \<Rightarrow> 'c list" where
  "bc2 f xs ys =
     (if length xs = length ys then map2 f xs ys
      else (case xs of
              [x] \<Rightarrow> map (f x) ys
            | _ \<Rightarrow> (case ys of [y] \<Rightarrow> map (\<lambda>x. f x y) xs | _ \<Rightarrow> [])))"

definition np_binop ::
  "(real \<Rightarrow> real \<Rightarrow> real) \<Rightarrow> real ndarray \<Rightarrow> real ndarray \<Rightarrow> error + real ndarray" where
  "np_binop f a b =
     (case a of
        Vec u \<Rightarrow>
          (case b of
             Vec v \<Rightarrow>
               if bc_ok (length u) (length v) then Inr (Vec (bc2 f u v)) else Inl ValueError
           | Mat k \<Rightarrow>
               if bc_ok (length u) (ncols k) then Inr (Mat (map (\<lambda>r. bc2 f u r) k))
               else Inl ValueError)
      | Mat m \<Rightarrow>
          (case b of
             Vec v \<Rightarrow>
               if bc_ok (ncols m) (length v) then Inr (Mat (map (\<lambda>r. bc2 f r v) m))
               else Inl ValueError
           | Mat k \<Rightarrow>
               if bc_ok (length m) (length k) \<and> bc_ok (ncols m) (ncols k)
               then Inr (Mat (bc2 (bc2 f) m k))
               else Inl ValueError))"

text \<open>\<^verbatim>\<open>a.max()\<close>, \<^verbatim>\<open>a.min()\<close> and the builtin \<^verbatim>\<open>max\<close> over the entries: an empty
  argument raises ValueError.\<close>

definition np_max :: "real list \<Rightarrow> error + real" where
  "np_max xs = (case xs of [] \<Rightarrow> Inl ValueError | x # r \<Rightarrow> Inr (fold max r x))"

definition np_min :: "real list \<Rightarrow> error + real" where
  "np_min xs = (case xs of [] \<Rightarrow> Inl ValueError | x # r \<Rightarrow> Inr (fold min r x))"

text \<open>\<^verbatim>\<open>np.linalg.norm\<close> of the entries (the 2-norm, for a matrix the Frobenius norm).\<close>

definition np_norm :: "real list \<Rightarrow> real" where
  "np_norm xs = sqrt (sum_list (map (\<lambda>x. x * x) xs))"

text \<open>A boolean mask as index, \<^verbatim>\<open>a[mask]\<close>: a mask of one axis selects along the
  first axis, a mask of the shape of a matrix selects entries in row-major order; a
  mask that does not fit raises IndexError.\<close>

definition mask_select :: "'a list \<Rightarrow> bool list \<Rightarrow> 'a list" where
  "mask_select xs bs = map fst (filter snd (zip xs bs))"

definition bool_index :: "'a ndarray \<Rightarrow> bool ndarray \<Rightarrow> error + 'a ndarray" where
  "bool_index a msk =
     (case a of
        Vec v \<Rightarrow>
          (case msk of
             Vec b \<Rightarrow> if length b = length v then Inr (Vec (mask_select v b)) else Inl IndexError
           | Mat b \<Rightarrow> Inl IndexError)
      | Mat m \<Rightarrow>
          (case msk of
             Vec b \<Rightarrow> if length b = length m then Inr (Mat (mask_select m b)) else Inl IndexError
           | Mat b \<Rightarrow>
               if map length b = map length m
               then Inr (Vec (mask_select (concat m) (concat b)))
               else Inl IndexError))"

text \<open>A list of positions as index, \<^verbatim>\<open>a[idxs]\<close>, along the first axis.\<close>

definition int_index :: "'a ndarray \<Rightarrow> nat list \<Rightarrow> error + 'a ndarray" where
  "int_index a idxs =
     (case a of
        Vec v \<Rightarrow>
          if list_all (\<lambda>i. i < length v) idxs then Inr (Vec (map ((!) v) idxs))
          else Inl IndexError
      | Mat m \<Rightarrow>
          if list_all (\<lambda>i. i < length m) idxs then Inr (Mat (map ((!) m) idxs))
          else Inl IndexError)"

text \<open>A column, \<^verbatim>\<open>a[:, c]\<close>: an array of one axis has no second index, and the
  position has to exist in the rows.\<close>

definition take_col :: "'a ndarray \<Rightarrow> nat \<Rightarrow> error + 'a ndarray" where
  "take_col a c =
     (case a of
        Vec _ \<Rightarrow> Inl IndexError
      | Mat m \<Rightarrow>
          if c < ncols m \<and> list_all (\<lambda>r. c < length r) m then Inr (Vec (map (\<lambda>r. r ! c) m))
          else Inl IndexError)"

text \<open>Running a list of computations in order; the first exception ends the run.\<close>

fun collect :: "('e + 'a) list \<Rightarrow> 'e + 'a list" where
  "collect [] = Inr []"
| "collect (x # xs) =
     (case x of
        Inl e \<Rightarrow> Inl e
      | Inr v \<Rightarrow> (case collect xs of Inl e \<Rightarrow> Inl e | Inr vs \<Rightarrow> Inr (v # vs)))"

text \<open>\<^verbatim>\<open>np.vstack(gs).T\<close>: arrays of one axis are stacked as rows, matrices row after
  row; no array at all, or rows of different lengths, raise ValueError.\<close>

definition vstack_T :: "real ndarray list \<Rightarrow> error + real ndarray" where
  "vstack_T gs =
     (let rows = concat (map (\<lambda>g. case g of Vec v \<Rightarrow> [v] | Mat m \<Rightarrow> m) gs) in
      if gs = [] \<or> (\<exists>r \<in> set rows. length r \<noteq> ncols rows) then Inl ValueError
      else Inr (Mat (transpose rows)))"

section \<open>Keyword arguments\<close>

text \<open>\<^verbatim>\<open>loss_kws\<close> is a dictionary from names to scalars, written as the list of its
  items (the keys are distinct). Unpacking it with \<^verbatim>\<open>**\<close> into a function raises
  TypeError unless its keys are exactly the keyword parameters that are still open.\<close>

type_synonym kwargs = "(string \<times> real) list"

definition no_kws :: "kwargs \<Rightarrow> (error + 'a) \<Rightarrow> error + 'a" where
  "no_kws kws r = (if kws = [] then r else Inl TypeError)"

definition one_kw :: "string \<Rightarrow> kwargs \<Rightarrow> (real \<Rightarrow> error + 'a) \<Rightarrow> error + 'a" where
  "one_kw name kws f =
     (case kws of
        [(k, v)] \<Rightarrow> if k = name then f v else Inl TypeError
      | _ \<Rightarrow> Inl TypeError)"

section \<open>Code that the module imports\<close>

text \<open>
  Functions and constants that \<^verbatim>\<open>glm_pen_max_lasso.py\<close> imports from modules that are
  not among the sources are parameters of the embedding:
  \<^verbatim>\<open>huber_grad\<close>, \<^verbatim>\<open>tilted_L1_grad\<close>, \<^verbatim>\<open>np.quantile\<close>, \<^verbatim>\<open>is_multi_response\<close>,
  \<^verbatim>\<open>leading_sval\<close>, the list \<^verbatim>\<open>_MULTI_RESP_LOSSES\<close>, and the weight that
  \<^verbatim>\<open>process_weights_group_lasso\<close> derives for a group.
\<close>

datatype weight = Null | NaN | Num real

record ext =
  huber_grad :: "real ndarray \<Rightarrow> real \<Rightarrow> real ndarray"
  tilted_L1_grad :: "real ndarray \<Rightarrow> real \<Rightarrow> real ndarray"
  np_quantile :: "real ndarray \<Rightarrow> real \<Rightarrow> real"
  is_multi_response :: "real ndarray \<Rightarrow> bool"
  leading_sval :: "real ndarray \<Rightarrow> real"
  MULTI_RESP_LOSSES :: "string list"
  group_weight :: "nat list \<Rightarrow> weight"

section \<open>Gradients at zero\<close>

definition g0_lin_reg :: "real list list \<Rightarrow> real ndarray \<Rightarrow> bool \<Rightarrow> error + real ndarray" where
  "g0_lin_reg X y fit_intercept =
     (case (if fit_intercept then XT_matmul X (map_ndarray (\<lambda>t. t - np_mean y) y)
            else XT_matmul X y) of
        Inl e \<Rightarrow> Inl e
      | Inr grad \<Rightarrow> Inr (map_ndarray (\<lambda>g. g / real (length X)) grad))"

definition g0_lin_reg_mr :: "real list list \<Rightarrow> real ndarray \<Rightarrow> bool \<Rightarrow> error + real ndarray" where
  "g0_lin_reg_mr X y fit_intercept =
     (case (if fit_intercept then XT_matmul X (sub_mean_axis0 y)
            else XT_matmul X y) of
        Inl e \<Rightarrow> Inl e
      | Inr grad \<Rightarrow> Inr (map_ndarray (\<lambda>g. g / real (length X)) grad))"

definition g0_huber_reg ::
  "ext \<Rightarrow> real list list \<Rightarrow> real ndarray \<Rightarrow> bool \<Rightarrow> real \<Rightarrow> error + real ndarray" where
  "g0_huber_reg E X y fit_intercept knot =
     (let grad = (if fit_intercept then huber_grad E (map_ndarray (\<lambda>t. t - np_mean y) y) knot
                  else huber_grad E y knot)
      in Inr (map_ndarray (\<lambda>g. g / real (length X)) grad))"

definition g0_huber_reg_mr ::
  "ext \<Rightarrow> real list list \<Rightarrow> real ndarray \<Rightarrow> bool \<Rightarrow> real \<Rightarrow> error + real ndarray" where
  "g0_huber_reg_mr E X y fit_intercept knot =
     (let grad = (if fit_intercept then huber_grad E (sub_mean_axis0 y) knot
                  else huber_grad E y knot)
      in Inr (map_ndarray (\<lambda>g. g / real (length X)) grad))"

definition g0_log_reg :: "real list list \<Rightarrow> real ndarray \<Rightarrow> bool \<Rightarrow> error + real ndarray" where
  "g0_log_reg X y fit_intercept =
     (case (if fit_intercept then XT_matmul X (map_ndarray (\<lambda>t. np_mean y - t) y)
            else XT_matmul X (map_ndarray (\<lambda>t. 1 / 2 - t) y)) of
        Inl e \<Rightarrow> Inl e
      | Inr grad \<Rightarrow> Inr (map_ndarray (\<lambda>g. g / real (length X)) grad))"

text \<open>In \<^verbatim>\<open>g0_multinomial\<close> the class probabilities are reshaped to one row and repeated
  once per row of \<open>X\<close>; \<^verbatim>\<open>y.shape[1]\<close> of an array of one axis raises IndexError.\<close>

definition g0_multinomial :: "real list list \<Rightarrow> real ndarray \<Rightarrow> bool \<Rightarrow> error + real ndarray" where
  "g0_multinomial X y fit_intercept =
     (case (if fit_intercept
            then Inr (case y of Vec v \<Rightarrow> [np_mean y] | Mat m \<Rightarrow> col_means m)
            else (case y of
                    Vec v \<Rightarrow> Inl IndexError
                  | Mat m \<Rightarrow> Inr (replicate (ncols m) (1 / real (ncols m))))) of
        Inl e \<Rightarrow> Inl e
      | Inr cls_prob_vec \<Rightarrow>
          (case np_binop (-) (Mat (replicate (length X) cls_prob_vec)) y of
             Inl e \<Rightarrow> Inl e
           | Inr diff \<Rightarrow>
               (case XT_matmul X diff of
                  Inl e \<Rightarrow> Inl e
                | Inr g \<Rightarrow> Inr (map_ndarray (\<lambda>t. t / real (length X)) g))))"

definition g0_poisson :: "real list list \<Rightarrow> real ndarray \<Rightarrow> bool \<Rightarrow> error + real ndarray" where
  "g0_poisson X y fit_intercept =
     (case (if fit_intercept then Inr (map_ndarray (\<lambda>t. np_mean y - t) y)
            else np_binop (-) (Vec (replicate (len0 y) 1)) y) of
        Inl e \<Rightarrow> Inl e
      | Inr d \<Rightarrow>
          (case XT_matmul X d of
             Inl e \<Rightarrow> Inl e
           | Inr grad \<Rightarrow> Inr (map_ndarray (\<lambda>g. g / real (length X)) grad)))"

text \<open>\<^verbatim>\<open>get_g0_multi_response\<close> calls the getter of one response on every column of
  \<open>y\<close> and stacks the results as the columns of a matrix.\<close>

definition get_g0_multi_response ::
  "(real list list \<Rightarrow> real ndarray \<Rightarrow> bool \<Rightarrow> kwargs \<Rightarrow> error + real ndarray) \<Rightarrow>
   real list list \<Rightarrow> real ndarray \<Rightarrow> bool \<Rightarrow> kwargs \<Rightarrow> error + real ndarray" where
  "get_g0_multi_response g0_getter X y fit_intercept loss_kws =
     (case y of
        Vec _ \<Rightarrow> Inl IndexError
      | Mat m \<Rightarrow>
          (case collect (map (\<lambda>j. g0_getter X (Vec (map (\<lambda>r. r ! j) m)) fit_intercept loss_kws)
                            [0..<ncols m]) of
             Inl e \<Rightarrow> Inl e
           | Inr gs \<Rightarrow> vstack_T gs))"

definition g0_poisson_mr ::
  "real list list \<Rightarrow> real ndarray \<Rightarrow> bool \<Rightarrow> kwargs \<Rightarrow> error + real ndarray" where
  "g0_poisson_mr X y fit_intercept loss_kws =
     get_g0_multi_response (\<lambda>X' y' f' kws. no_kws kws (g0_poisson X' y' f'))
       X y fit_intercept loss_kws"

text \<open>In \<^verbatim>\<open>g0_quantile\<close> the factor \<^verbatim>\<open>1 / X.shape[0]\<close> divides two Python integers, which
  raises ZeroDivisionError for a matrix without rows; the product is then taken with
  \<^verbatim>\<open>X.T\<close> before the matrix product.\<close>

definition g0_quantile ::
  "ext \<Rightarrow> real list list \<Rightarrow> real ndarray \<Rightarrow> bool \<Rightarrow> real \<Rightarrow> error + real ndarray" where
  "g0_quantile E X y fit_intercept quantile =
     (let pred_diff = (if fit_intercept then map_ndarray (\<lambda>t. t - np_quantile E y quantile) y
                       else map_ndarray (\<lambda>t. t - 0) y)
      in if length X = 0 then Inl ZeroDivisionError
         else XT_matmul (map (map (\<lambda>x. (1 / real (length X)) * x)) X)
                (tilted_L1_grad E pred_diff quantile))"

definition grad_at_zero ::
  "ext \<Rightarrow> real list list \<Rightarrow> real ndarray \<Rightarrow> bool \<Rightarrow> string \<Rightarrow> kwargs \<Rightarrow> error + real ndarray" where
  "grad_at_zero E X y fit_intercept loss_func loss_kws =
     (if loss_func = ''lin_reg'' then g0_lin_reg X y fit_intercept
      else if loss_func = ''lin_reg_mr'' then g0_lin_reg_mr X y fit_intercept
      else if loss_func = ''huber_reg''
        then one_kw ''knot'' loss_kws (g0_huber_reg E X y fit_intercept)
      else if loss_func = ''huber_reg_mr''
        then one_kw ''knot'' loss_kws (g0_huber_reg_mr E X y fit_intercept)
      else if loss_func = ''log_reg'' then g0_log_reg X y fit_intercept
      else if loss_func = ''multinomial'' then g0_multinomial X y fit_intercept
      else if loss_func = ''poisson'' then no_kws loss_kws (g0_poisson X y fit_intercept)
      else if loss_func = ''g0_poisson_mr'' then no_kws loss_kws (g0_poisson X y fit_intercept)
      else if loss_func = ''quantile''
        then one_kw ''quantile'' loss_kws (g0_quantile E X y fit_intercept)
      else Inl NotImplementedError)"

section \<open>Penalized coordinates\<close>

text \<open>An entry of a weights array is \<^verbatim>\<open>None\<close>, NaN or a number. Machine epsilon is
  \<^verbatim>\<open>np.finfo(float).eps\<close>, which is \<open>2\<^sup>-\<^sup>5\<^sup>2\<close>.\<close>

definition float_eps :: real where
  "float_eps = 1 / 2 ^ 52"

definition is_nonzero_weight :: "weight \<Rightarrow> bool" where
  "is_nonzero_weight w =
     (case w of Null \<Rightarrow> False | NaN \<Rightarrow> False | Num r \<Rightarrow> float_eps < \<bar>r\<bar>)"

text \<open>\<^verbatim>\<open>get_is_pen_mask\<close> builds a Python list of booleans, one per entry, and hands it to
  \<^verbatim>\<open>np.array\<close>; the result is reshaped to the shape of the weights. For a list that is
  not empty this is an array of booleans. For the empty list \<^verbatim>\<open>np.array([])\<close> is an
  array of float64, which numpy does not accept as an index: \<^verbatim>\<open>a[mask]\<close> then raises
  IndexError.\<close>

datatype index_array = BoolMask "bool ndarray" | FloatArray "real ndarray"

definition get_is_pen_mask :: "weight ndarray \<Rightarrow> index_array" where
  "get_is_pen_mask weights =
     (if map is_nonzero_weight (flat weights) = []
      then FloatArray (map_ndarray (\<lambda>w. 0) weights)
      else BoolMask (map_ndarray is_nonzero_weight weights))"

definition mask_index :: "'a ndarray \<Rightarrow> index_array \<Rightarrow> error + 'a ndarray" where
  "mask_index a idx =
     (case idx of
        BoolMask msk \<Rightarrow> bool_index a msk
      | FloatArray _ \<Rightarrow> Inl IndexError)"

text \<open>The number that an entry holds. Only entries that the mask selects are ever
  divided by, and those are numbers.\<close>

definition wval :: "weight \<Rightarrow> real" where
  "wval w = (case w of Num r \<Rightarrow> r | _ \<Rightarrow> 0)"

text \<open>\<^verbatim>\<open>a[penalized_mask] / weights[penalized_mask]\<close> with
  \<^verbatim>\<open>penalized_mask = get_is_pen_mask(weights)\<close>, as all four bounds compute it.\<close>

definition masked_div :: "real ndarray \<Rightarrow> weight ndarray \<Rightarrow> error + real ndarray" where
  "masked_div a weights =
     (let penalized_mask = get_is_pen_mask weights in
      case mask_index a penalized_mask of
        Inl e \<Rightarrow> Inl e
      | Inr num \<Rightarrow>
          (case mask_index weights penalized_mask of
             Inl e \<Rightarrow> Inl e
           | Inr den \<Rightarrow> np_binop (/) num (map_ndarray wval den)))"

section \<open>The four bounds\<close>

text \<open>Lines 32 to 41 of \<^verbatim>\<open>lasso_max\<close>: the bound for a response that is not split.\<close>

definition lasso_max_tail ::
  "ext \<Rightarrow> real list list \<Rightarrow> real ndarray \<Rightarrow> bool \<Rightarrow> string \<Rightarrow> kwargs \<Rightarrow>
   weight ndarray option \<Rightarrow> error + real" where
  "lasso_max_tail E X y fit_intercept loss_func loss_kws weights =
     (case grad_at_zero E X y fit_intercept loss_func loss_kws of
        Inl e \<Rightarrow> Inl e
      | Inr grad \<Rightarrow>
          (case weights of
             None \<Rightarrow> np_max (map abs (flat grad))
           | Some w \<Rightarrow>
               (case masked_div grad w of
                  Inl e \<Rightarrow> Inl e
                | Inr q \<Rightarrow> np_max (map abs (flat q)))))"

text \<open>The weights of response \<open>c\<close>: \<^verbatim>\<open>weights[:, c]\<close>, or \<^verbatim>\<open>None\<close> without weights.\<close>

definition weights_col :: "weight ndarray option \<Rightarrow> nat \<Rightarrow> error + weight ndarray option" where
  "weights_col weights c =
     (case weights of
        None \<Rightarrow> Inr None
      | Some wa \<Rightarrow> (case take_col wa c of Inl e \<Rightarrow> Inl e | Inr w \<Rightarrow> Inr (Some w)))"

text \<open>\<^verbatim>\<open>lasso_max\<close>. For a response that \<^verbatim>\<open>is_multi_response\<close> accepts, the loop runs over
  \<^verbatim>\<open>range(y.shape[1])\<close> (IndexError for an array of one axis) and calls \<^verbatim>\<open>lasso_max\<close> on
  every column; the builtin \<^verbatim>\<open>max\<close> of the collected values is returned.\<close>

function lasso_max ::
  "ext \<Rightarrow> real list list \<Rightarrow> real ndarray \<Rightarrow> bool \<Rightarrow> string \<Rightarrow> kwargs \<Rightarrow>
   weight ndarray option \<Rightarrow> error + real" where
  "lasso_max E X (Vec v) fit_intercept loss_func loss_kws weights =
     (if is_multi_response E (Vec v) then Inl IndexError
      else lasso_max_tail E X (Vec v) fit_intercept loss_func loss_kws weights)"
| "lasso_max E X (Mat m) fit_intercept loss_func loss_kws weights =
     (if is_multi_response E (Mat m) then
        (case collect
                (map (\<lambda>c. case weights_col weights c of
                            Inl e \<Rightarrow> Inl e
                          | Inr w \<Rightarrow>
                              lasso_max E X (Vec (map (\<lambda>r. r ! c) m))
                                fit_intercept loss_func loss_kws w)
                     [0..<ncols m]) of
           Inl e \<Rightarrow> Inl e
         | Inr resp_maxes \<Rightarrow> np_max resp_maxes)
      else lasso_max_tail E X (Mat m) fit_intercept loss_func loss_kws weights)"
  by pat_completeness auto
termination
  by (relation "measure (\<lambda>(E, X, y, r). case y of Vec _ \<Rightarrow> 0 | Mat _ \<Rightarrow> Suc 0)") auto

text \<open>\<^verbatim>\<open>np.linalg.norm(grad, axis=1)\<close>: the norm of every row; an array of one axis has
  no axis 1.\<close>

definition row_norms_of :: "real ndarray \<Rightarrow> error + real ndarray" where
  "row_norms_of grad =
     (case grad of Vec _ \<Rightarrow> Inl AxisError | Mat m \<Rightarrow> Inr (Vec (map np_norm m)))"

definition get_L1toL2_max ::
  "ext \<Rightarrow> real list list \<Rightarrow> real ndarray \<Rightarrow> bool \<Rightarrow> string \<Rightarrow> kwargs \<Rightarrow>
   weight ndarray option \<Rightarrow> error + real" where
  "get_L1toL2_max E X y fit_intercept loss_func loss_kws weights =
     (if loss_func \<notin> set (MULTI_RESP_LOSSES E) then Inl AssertionError
      else
        (case grad_at_zero E X y fit_intercept loss_func loss_kws of
           Inl e \<Rightarrow> Inl e
         | Inr grad \<Rightarrow>
             (case row_norms_of grad of
                Inl e \<Rightarrow> Inl e
              | Inr row_norms \<Rightarrow>
                  (case weights of
                     None \<Rightarrow> np_max (flat row_norms)
                   | Some w \<Rightarrow>
                       (case masked_div row_norms w of
                          Inl e \<Rightarrow> Inl e
                        | Inr q \<Rightarrow> np_max (flat q))))))"

text \<open>Modelled from the spec: \<^verbatim>\<open>process_weights_group_lasso\<close> of \<^verbatim>\<open>ya_glm.processing\<close> is
  not among the sources. The spec says that the weight of a group is derived per group
  if weights are not supplied; supplied weights are handed on as they are.\<close>

definition process_weights_group_lasso ::
  "ext \<Rightarrow> nat list list \<Rightarrow> weight ndarray option \<Rightarrow> weight ndarray option" where
  "process_weights_group_lasso E groups weights =
     (case weights of
        None \<Rightarrow> Some (Vec (map (group_weight E) groups))
      | Some w \<Rightarrow> Some w)"

definition group_lasso_max ::
  "ext \<Rightarrow> real list list \<Rightarrow> real ndarray \<Rightarrow> nat list list \<Rightarrow> bool \<Rightarrow> string \<Rightarrow> kwargs \<Rightarrow>
   weight ndarray option \<Rightarrow> error + real" where
  "group_lasso_max E X y groups fit_intercept loss_func loss_kws weights =
     (case grad_at_zero E X y fit_intercept loss_func loss_kws of
        Inl e \<Rightarrow> Inl e
      | Inr grad \<Rightarrow>
          (case collect (map (\<lambda>grp_idxs. case int_index grad grp_idxs of
                                          Inl e \<Rightarrow> Inl e
                                        | Inr g \<Rightarrow> Inr (np_norm (flat g)))
                             groups) of
             Inl e \<Rightarrow> Inl e
           | Inr group_norms \<Rightarrow>
               (case process_weights_group_lasso E groups weights of
                  None \<Rightarrow> np_max group_norms
                | Some w \<Rightarrow>
                    (case masked_div (Vec group_norms) w of
                       Inl e \<Rightarrow> Inl e
                     | Inr q \<Rightarrow> np_max (flat q)))))"

definition nuclear_norm_max ::
  "ext \<Rightarrow> real list list \<Rightarrow> real ndarray \<Rightarrow> bool \<Rightarrow> string \<Rightarrow> kwargs \<Rightarrow>
   weight ndarray option \<Rightarrow> error + real" where
  "nuclear_norm_max E X y fit_intercept loss_func loss_kws weights =
     (if loss_func \<notin> set (MULTI_RESP_LOSSES E) then Inl AssertionError
      else
        (case grad_at_zero E X y fit_intercept loss_func loss_kws of
           Inl e \<Rightarrow> Inl e
         | Inr grad \<Rightarrow>
             (let sval_max = leading_sval E grad in
              case weights of
                None \<Rightarrow> Inr sval_max
              | Some w \<Rightarrow>
                  (case mask_index w (get_is_pen_mask w) of
                     Inl e \<Rightarrow> Inl e
                   | Inr sel \<Rightarrow>
                       (case np_min (map wval (flat sel)) of
                          Inl e \<Rightarrow> Inl e
                        | Inr smallest_weight \<Rightarrow> Inr (sval_max / smallest_weight))))))"

section \<open>Projections onto the simplex and the L1 ball\<close>

text \<open>
  Rounding to float64. A real number \<open>x\<close> other than 0 lies between two neighbouring
  powers of two, \<open>2\<^sup>k \<le> \<bar>x\<bar> < 2\<^sup>k\<^sup>+\<^sup>1\<close>; the float64 numbers in that range are the
  multiples of \<open>2\<^sup>k\<^sup>-\<^sup>5\<^sup>2\<close>, and \<open>x\<close> is rounded to the nearest of them, a tie going to the
  even multiple. \<open>rne\<close> rounds to the nearest integer, ties to even; \<open>fexp x\<close> is
  \<open>k - 52\<close>. The range of exponents is not bounded: overflow and gradual underflow are
  not modelled.
\<close>

definition rne :: "real \<Rightarrow> int" where
  "rne y =
     (let f = \<lfloor>y\<rfloor> in
      if y - of_int f < 1 / 2 then f
      else if 1 / 2 < y - of_int f then f + 1
      else if even f then f else f + 1)"

definition fexp :: "real \<Rightarrow> int" where
  "fexp x = \<lfloor>log 2 \<bar>x\<bar>\<rfloor> - 52"

definition fl64 :: "real \<Rightarrow> real" where
  "fl64 x = (if x = 0 then 0 else of_int (rne (x / 2 powi fexp x)) * 2 powi fexp x)"

text \<open>\<^verbatim>\<open>np.cumsum\<close>: the running sums, from the left. The first entry is copied, every
  further entry is the rounded sum of the entry before it and the next summand.\<close>

fun cumsum_acc :: "real \<Rightarrow> real list \<Rightarrow> real list" where
  "cumsum_acc a [] = []"
| "cumsum_acc a (x # xs) = fl64 (a + x) # cumsum_acc (fl64 (a + x)) xs"

definition np_cumsum :: "real list \<Rightarrow> real list" where
  "np_cumsum xs = (case xs of [] \<Rightarrow> [] | x # r \<Rightarrow> x # cumsum_acc x r)"

text \<open>The last entry, \<^verbatim>\<open>a[-1]\<close>: IndexError for an array without entries.\<close>

definition py_last :: "'a list \<Rightarrow> error + 'a" where
  "py_last xs = (if xs = [] then Inl IndexError else Inr (last xs))"

text \<open>The intermediate arrays of \<^verbatim>\<open>project_simplex\<close>, under the names of the source:
  \<^verbatim>\<open>u = np.sort(v)[::-1]\<close>, \<^verbatim>\<open>cssv = np.cumsum(u) - z\<close>, \<^verbatim>\<open>ind = np.arange(n_features) + 1\<close>
  and \<^verbatim>\<open>cond = u - cssv / ind > 0\<close>. The entries of \<^verbatim>\<open>ind\<close> are integers, which convert
  to float64 without rounding; sorting, comparing and \<^verbatim>\<open>np.maximum\<close> do not round.\<close>

definition simplex_u :: "real list \<Rightarrow> real list" where
  "simplex_u v = rev (sort v)"

definition simplex_cssv :: "real list \<Rightarrow> real \<Rightarrow> real list" where
  "simplex_cssv v z = map (\<lambda>s. fl64 (s - z)) (np_cumsum (simplex_u v))"

definition simplex_ind :: "real list \<Rightarrow> real list" where
  "simplex_ind v = map (\<lambda>i. real i + 1) [0..<length v]"

definition simplex_cond :: "real list \<Rightarrow> real \<Rightarrow> bool list" where
  "simplex_cond v z =
     map2 (\<lambda>a b. 0 < fl64 (a - b)) (simplex_u v)
       (map2 (\<lambda>c i. fl64 (c / i)) (simplex_cssv v z) (simplex_ind v))"

definition project_simplex :: "real list \<Rightarrow> real \<Rightarrow> error + real list" where
  "project_simplex v z =
     (case py_last (mask_select (simplex_ind v) (simplex_cond v z)) of
        Inl e \<Rightarrow> Inl e
      | Inr rho \<Rightarrow>
          (case py_last (mask_select (simplex_cssv v z) (simplex_cond v z)) of
             Inl e \<Rightarrow> Inl e
           | Inr c \<Rightarrow>
               (let theta = fl64 (c / rho) in Inr (map (\<lambda>x. max (fl64 (x - theta)) 0) v))))"

text \<open>\<^verbatim>\<open>np.sign(v) * project_simplex(np.abs(v), z)\<close>: a product with a sign does not
  round.\<close>

definition project_l1_ball :: "real list \<Rightarrow> real \<Rightarrow> error + real list" where
  "project_l1_ball v z =
     (case project_simplex (map abs v) z of
        Inl e \<Rightarrow> Inl e
      | Inr p \<Rightarrow> Inr (map2 (*) (map sgn v) p))"

text \<open>\<^verbatim>\<open>p.reshape(x.shape)\<close> for a list \<open>p\<close> of as many entries as \<open>x\<close> has.\<close>

fun unflatten :: "nat list \<Rightarrow> 'a list \<Rightarrow> 'a list list" where
  "unflatten [] xs = []"
| "unflatten (n # ns) xs = take n xs # unflatten ns (drop n xs)"

definition reshape_like :: "'b ndarray \<Rightarrow> 'a list \<Rightarrow> 'a ndarray" where
  "reshape_like x p = (case x of Vec _ \<Rightarrow> Vec p | Mat m \<Rightarrow> Mat (unflatten (map length m) p))"

text \<open>The proximal operators of the constraints \<^verbatim>\<open>Simplex(radius)\<close> and \<^verbatim>\<open>L1Ball(mult)\<close>;
  the step is not used.\<close>

definition Simplex_prox :: "real \<Rightarrow> real ndarray \<Rightarrow> real \<Rightarrow> error + real ndarray" where
  "Simplex_prox radius x step =
     (case project_simplex (flat x) radius of
        Inl e \<Rightarrow> Inl e
      | Inr p \<Rightarrow> Inr (reshape_like x p))"

definition L1Ball_prox :: "real \<Rightarrow> real ndarray \<Rightarrow> real \<Rightarrow> error + real ndarray" where
  "L1Ball_prox mult x step =
     (case project_l1_ball (flat x) mult of
        Inl e \<Rightarrow> Inl e
      | Inr p \<Rightarrow> Inr (reshape_like x p))"

section \<open>The cvxpy solver\<close>

text \<open>The value of a cvxpy variable is a scalar (for the shape \<^verbatim>\<open>()\<close>) or an array.\<close>

datatype cp_value = Scalar real | Array "real ndarray"

definition shape_of :: "cp_value \<Rightarrow> nat list" where
  "shape_of a =
     (case a of
        Scalar _ \<Rightarrow> []
      | Array (Vec v) \<Rightarrow> [length v]
      | Array (Mat m) \<Rightarrow> [length m, ncols m])"

record cp_variable =
  var_shape :: "nat list"
  var_data :: "cp_value option"

text \<open>The setter of \<^verbatim>\<open>Variable.value\<close> in cvxpy: \<^verbatim>\<open>None\<close> is stored as it is; any other
  value has to have the shape of the variable, otherwise the setter raises ValueError
  and stores nothing. A variable made by \<^verbatim>\<open>cp.Variable(shape=...)\<close> has no further
  attributes that a value could violate.\<close>

definition value_fits :: "nat list \<Rightarrow> cp_value option \<Rightarrow> bool" where
  "value_fits shp val = (case val of None \<Rightarrow> True | Some a \<Rightarrow> shape_of a = shp)"

definition set_value :: "cp_variable \<Rightarrow> cp_value option \<Rightarrow> error + cp_variable" where
  "set_value var val =
     (if value_fits (var_shape var) val then Inr (var\<lparr>var_data := val\<rparr>)
      else Inl ValueError)"

text \<open>
  What \<^verbatim>\<open>Cvxpy.py\<close> imports is a parameter of the embedding, collected in one record:
  whether \<^verbatim>\<open>import cvxpy\<close> succeeds, \<^verbatim>\<open>get_flavor_kind\<close>, \<^verbatim>\<open>is_multi_response\<close>,
  \<^verbatim>\<open>get_shapes_from\<close>, \<^verbatim>\<open>clip_zero\<close>, \<^verbatim>\<open>NoPenalty()\<close>, the construction of the program
  (\<^verbatim>\<open>get_loss\<close>, \<^verbatim>\<open>get_penalty\<close>, \<^verbatim>\<open>get_constraints\<close>, \<^verbatim>\<open>cp.Minimize\<close>, \<^verbatim>\<open>cp.Problem\<close>),
  \<^verbatim>\<open>set_params\<close> with \<^verbatim>\<open>update_pen_val_and_weights\<close>, and \<^verbatim>\<open>problem.solve\<close>, which takes
  the initial values of the two variables and returns their final values and a status.
  The types \<open>'l\<close>, \<open>'p\<close>, \<open>'c\<close> are the configurations of loss, penalty and constraint,
  \<open>'q\<close> is a compiled program together with its penalty parameters.
\<close>

record ('l, 'p, 'c, 'q) cvxpy_env =
  cvxpy_installed :: bool
  get_flavor_kind :: "'p option \<Rightarrow> string option"
  y_is_multi_response :: "real ndarray \<Rightarrow> bool"
  get_shapes_from :: "real list list \<Rightarrow> real ndarray \<Rightarrow> nat list \<times> nat list"
  clip_zero :: "cp_value option \<Rightarrow> real \<Rightarrow> cp_value option"
  NoPenalty :: 'p
  build_problem ::
    "'l \<Rightarrow> 'p option \<Rightarrow> 'c option \<Rightarrow> real list list \<Rightarrow> real ndarray \<Rightarrow>
     real ndarray option \<Rightarrow> cp_variable \<Rightarrow> cp_variable option \<Rightarrow> error + 'q"
  set_params :: "'p \<Rightarrow> kwargs \<Rightarrow> 'p"
  update_pen_val_and_weights :: "'p \<Rightarrow> 'q \<Rightarrow> 'q"
  problem_solve ::
    "'q \<Rightarrow> cp_value option \<Rightarrow> cp_value option \<Rightarrow>
     error + (cp_value option \<times> cp_value option \<times> string)"

text \<open>The attributes of a solver object after \<^verbatim>\<open>setup\<close> (\<open>self_coef\<close> is \<^verbatim>\<open>self.coef_\<close>, and so on). \<open>solve_calls\<close> is not an
  attribute of the source: it counts the calls of \<^verbatim>\<open>problem_.solve\<close> that the object has
  made, so that "before the problem is solved" can be stated.\<close>

record ('p, 'q) cvxpy_solver =
  zero_tol :: real
  self_is_mr :: bool
  self_coef :: cp_variable
  self_intercept :: "cp_variable option"
  self_problem :: 'q
  self_penalty_config :: 'p
  solve_calls :: nat

record solution =
  soln_coef :: "cp_value option"
  soln_intercept :: "cp_value option option"
  opt_status :: string

text \<open>\<^verbatim>\<open>Cvxpy._is_applicable\<close> (a name cannot start with an underscore here). A failed
  import is caught, a warning is issued and false is returned; nothing is raised.\<close>

definition is_applicable_impl ::
  "('l, 'p, 'c, 'q) cvxpy_env \<Rightarrow> 'l \<Rightarrow> 'p option \<Rightarrow> 'c option \<Rightarrow> error + bool" where
  "is_applicable_impl env loss penalty constraint =
     (if \<not> cvxpy_installed env then Inr False
      else Inr (get_flavor_kind env penalty \<notin> set [Some ''non_convex'', Some ''mixed'']))"

text \<open>Modelled from the spec: the public probe \<^verbatim>\<open>is_applicable\<close> belongs to the base class
  \<^verbatim>\<open>GlmSolverWithPath\<close>, which is not among the sources. For this backend the spec
  describes it by the two conditions of \<^verbatim>\<open>_is_applicable\<close>, to which it is taken to
  delegate.\<close>

definition is_applicable ::
  "('l, 'p, 'c, 'q) cvxpy_env \<Rightarrow> 'l \<Rightarrow> 'p option \<Rightarrow> 'c option \<Rightarrow> error + bool" where
  "is_applicable env loss penalty constraint = is_applicable_impl env loss penalty constraint"

definition cvxpy_setup ::
  "('l, 'p, 'c, 'q) cvxpy_env \<Rightarrow> real \<Rightarrow> real list list \<Rightarrow> real ndarray \<Rightarrow> 'l \<Rightarrow> 'p option \<Rightarrow>
   'c option \<Rightarrow> bool \<Rightarrow> real ndarray option \<Rightarrow> error + ('p, 'q) cvxpy_solver" where
  "cvxpy_setup env ztol X y loss penalty constraint fit_intercept sample_weight =
     (if \<not> cvxpy_installed env then Inl ModuleNotFoundError
      else
        (case is_applicable env loss penalty constraint of
           Inl e \<Rightarrow> Inl e
         | Inr ok \<Rightarrow>
             if \<not> ok then Inl ValueError
             else
               (let coef = \<lparr>var_shape = fst (get_shapes_from env X y), var_data = None\<rparr>;
                    intercept =
                      (if fit_intercept
                       then Some \<lparr>var_shape = snd (get_shapes_from env X y), var_data = None\<rparr>
                       else None)
                in case build_problem env loss penalty constraint X y sample_weight
                          coef intercept of
                     Inl e \<Rightarrow> Inl e
                   | Inr prob \<Rightarrow>
                       Inr \<lparr>zero_tol = ztol,
                            self_is_mr = y_is_multi_response env y,
                            self_coef = coef,
                            self_intercept = intercept,
                            self_problem = prob,
                            self_penalty_config =
                              (case penalty of None \<Rightarrow> NoPenalty env | Some p \<Rightarrow> p),
                            solve_calls = 0\<rparr>)))"

definition update_penalty ::
  "('l, 'p, 'c, 'q) cvxpy_env \<Rightarrow> ('p, 'q) cvxpy_solver \<Rightarrow> kwargs \<Rightarrow> ('p, 'q) cvxpy_solver" where
  "update_penalty env s params =
     (let cfg = set_params env (self_penalty_config s) params in
      s\<lparr>self_penalty_config := cfg,
        self_problem := update_pen_val_and_weights env cfg (self_problem s)\<rparr>)"

text \<open>\<^verbatim>\<open>solve\<close> returns its result together with the object as the call leaves it: an
  exception does not undo the assignments made before it. The two assignments of lines
  111 and 112 go through the setter of cvxpy; the second one is an attribute access on
  \<^verbatim>\<open>None\<close>, hence AttributeError, when \<^verbatim>\<open>setup\<close> made no intercept variable. After
  \<^verbatim>\<open>problem_.solve\<close> the variables hold the values that cvxpy stored in them.\<close>

definition solve ::
  "('l, 'p, 'c, 'q) cvxpy_env \<Rightarrow> ('p, 'q) cvxpy_solver \<Rightarrow> cp_value option \<Rightarrow>
   cp_value option \<Rightarrow> (error + solution) \<times> ('p, 'q) cvxpy_solver" where
  "solve env s coef_init intercept_init =
     (case set_value (self_coef s) coef_init of
        Inl e \<Rightarrow> (Inl e, s)
      | Inr cvar \<Rightarrow>
          (let s1 = s\<lparr>self_coef := cvar\<rparr> in
           case self_intercept s1 of
             None \<Rightarrow> (Inl AttributeError, s1)
           | Some iv \<Rightarrow>
               (case set_value iv intercept_init of
                  Inl e \<Rightarrow> (Inl e, s1)
                | Inr ivar \<Rightarrow>
                    (let s2 = s1\<lparr>self_intercept := Some ivar,
                                solve_calls := Suc (solve_calls s1)\<rparr>
                     in case problem_solve env (self_problem s2) coef_init intercept_init of
                          Inl e \<Rightarrow> (Inl e, s2)
                        | Inr (cv, icv, st) \<Rightarrow>
                            (let s3 = s2\<lparr>self_coef := (self_coef s2)\<lparr>var_data := cv\<rparr>,
                                        self_intercept := Some (ivar\<lparr>var_data := icv\<rparr>)\<rparr>
                             in (Inr \<lparr>soln_coef = clip_zero env cv (zero_tol s3),
                                      soln_intercept =
                                        (case self_intercept s3 of
                                           None \<Rightarrow> None
                                         | Some i \<Rightarrow> Some (var_data i)),
                                      opt_status = st\<rparr>,
                                 s3))))))"

text \<open>The states that a solver object can be in after \<^verbatim>\<open>setup\<close> left it in state \<open>s\<close>:
  any number of calls of \<^verbatim>\<open>update_penalty\<close> and \<^verbatim>\<open>solve\<close> may have been made.\<close>

inductive later_state ::
  "('l, 'p, 'c, 'q) cvxpy_env \<Rightarrow> ('p, 'q) cvxpy_solver \<Rightarrow> ('p, 'q) cvxpy_solver \<Rightarrow> bool"
  for env :: "('l, 'p, 'c, 'q) cvxpy_env" and s :: "('p, 'q) cvxpy_solver" where
  at_setup: "later_state env s s"
| after_update: "later_state env s t \<Longrightarrow> later_state env s (update_penalty env t params)"
| after_solve: "later_state env s t \<Longrightarrow> later_state env s (snd (solve env t coef_init intercept_init))"

section \<open>Rescaled weights\<close>

text \<open>The weights array \<open>c \<cdot> weights\<close> of which the spec speaks: every number is multiplied
  by \<open>c\<close>; an entry that is \<^verbatim>\<open>None\<close> or NaN stays what it is.\<close>

definition scale_weight :: "real \<Rightarrow> weight \<Rightarrow> weight" where
  "scale_weight c w = (case w of Num r \<Rightarrow> Num (c * r) | Null \<Rightarrow> Null | NaN \<Rightarrow> NaN)"

definition scale_weights :: "real \<Rightarrow> weight ndarray \<Rightarrow> weight ndarray" where
  "scale_weights c W = map_ndarray (scale_weight c) W"

section \<open>A run of the simplex projection without rounding\<close>


section \<open>Instances for running the embedded code\<close>

text \<open>An instance of the code that \<^verbatim>\<open>glm_pen_max_lasso.py\<close> imports: a response is
  multi-response when it has a second axis of at least two columns; the leading
  singular value is given as the Frobenius norm, which it equals for a matrix of rank
  one. The theorems below hold for every instance; this one serves to evaluate the
  functions on concrete data.\<close>

definition example_ext :: ext where
  "example_ext =
     \<lparr>huber_grad = (\<lambda>a knot. a),
      tilted_L1_grad = (\<lambda>a q. a),
      np_quantile = (\<lambda>a q. 0),
      is_multi_response = (\<lambda>y. case y of Vec _ \<Rightarrow> False | Mat m \<Rightarrow> 2 \<le> ncols m),
      leading_sval = (\<lambda>a. np_norm (flat a)),
      MULTI_RESP_LOSSES = [''lin_reg_mr'', ''huber_reg_mr'', ''multinomial'', ''poisson_mr''],
      group_weight = (\<lambda>g. Num 1)\<rparr>"

text \<open>Two instances of what \<^verbatim>\<open>Cvxpy.py\<close> imports: one in which cvxpy is not installed,
  and one in which it is installed and every penalty has the given flavor kind.\<close>

definition env_absent :: "(unit, unit, unit, unit) cvxpy_env" where
  "env_absent =
     \<lparr>cvxpy_installed = False,
      get_flavor_kind = (\<lambda>p. Some ''convex''),
      y_is_multi_response = (\<lambda>y. False),
      get_shapes_from = (\<lambda>X y. ([1], [])),
      clip_zero = (\<lambda>a t. a),
      NoPenalty = (),
      build_problem = (\<lambda>l p c X y sw cv iv. Inr ()),
      set_params = (\<lambda>p k. p),
      update_pen_val_and_weights = (\<lambda>p q. q),
      problem_solve = (\<lambda>q ci ii. Inr (ci, ii, ''optimal''))\<rparr>"

definition env_present :: "string \<Rightarrow> (unit, unit, unit, unit) cvxpy_env" where
  "env_present kind = env_absent\<lparr>cvxpy_installed := True, get_flavor_kind := (\<lambda>p. Some kind)\<rparr>"

section \<open>The dispatch on the name of the loss\<close>

text \<open>
  Claim C4. The spec lists \<^verbatim>\<open>poisson_mr\<close> among the loss names and lets it be computed
  by stacking the Poisson formula over the responses. The dispatch of \<^verbatim>\<open>grad_at_zero\<close>
  compares the name with \<^verbatim>\<open>g0_poisson_mr\<close> instead, so for the name \<^verbatim>\<open>poisson_mr\<close>
  it reaches the last branch and raises NotImplementedError, whatever the data are.
\<close>

theorem grad_at_zero_poisson_mr_unsupported:
  "grad_at_zero E X y fit_intercept ''poisson_mr'' loss_kws = Inl NotImplementedError"
  by (simp add: grad_at_zero_def)

section \<open>Maxima, masks and the masked division\<close>

lemma np_max_Nil: "np_max [] = Inl ValueError"
  by (simp add: np_max_def)

lemma np_max_Max: "xs \<noteq> [] \<Longrightarrow> np_max xs = Inr (Max (set xs))"
proof (cases xs)
  case Nil
  assume "xs \<noteq> []"
  with Nil show ?thesis by simp
next
  case (Cons a list)
  have "fold max list a = Max (set (a # list))"
    by (rule Max.set_eq_fold [symmetric])
  with Cons show ?thesis by (simp add: np_max_def)
qed

lemma mask_select_fst:
  "length ws = length a \<Longrightarrow>
   mask_select a (map p ws) = map fst (filter (\<lambda>(x, w). p w) (zip a ws))"
  by (induction ws a rule: list_induct2) (simp_all add: mask_select_def)

lemma mask_select_snd:
  "length ws = length a \<Longrightarrow>
   mask_select ws (map p ws) = map snd (filter (\<lambda>(x, w). p w) (zip a ws))"
  by (induction ws a rule: list_induct2) (simp_all add: mask_select_def)

lemma map2_fst_snd:
  "map2 f (map fst ps) (map (g \<circ> snd) ps) = map (\<lambda>(x, w). f x (g w)) ps"
  by (induction ps) auto

lemma get_is_pen_mask_nonempty:
  "flat W \<noteq> [] \<Longrightarrow> get_is_pen_mask W = BoolMask (map_ndarray is_nonzero_weight W)"
  by (simp add: get_is_pen_mask_def)

lemma get_is_pen_mask_empty:
  "flat W = [] \<Longrightarrow> get_is_pen_mask W = FloatArray (map_ndarray (\<lambda>w. 0) W)"
  by (simp add: get_is_pen_mask_def)

lemma masked_div_empty: "flat W = [] \<Longrightarrow> masked_div a W = Inl IndexError"
  by (simp add: masked_div_def get_is_pen_mask_empty mask_index_def)

lemma masked_div_Vec:
  assumes "length ws = length a" and "ws \<noteq> []"
  shows "masked_div (Vec a) (Vec ws) =
           Inr (Vec (map (\<lambda>(x, w). x / wval w) (filter (\<lambda>(x, w). is_nonzero_weight w) (zip a ws))))"
proof -
  let ?F = "filter (\<lambda>(x, w). is_nonzero_weight w) (zip a ws)"
  have 1: "mask_select a (map is_nonzero_weight ws) = map fst ?F"
    by (rule mask_select_fst [OF assms(1)])
  have 2: "mask_select ws (map is_nonzero_weight ws) = map snd ?F"
    by (rule mask_select_snd [OF assms(1)])
  have 3: "bc2 (/) (map fst ?F) (map (wval \<circ> snd) ?F) = map (\<lambda>(x, w). x / wval w) ?F"
    using map2_fst_snd [of "(/)" ?F wval] by (simp add: bc2_def)
  have m: "get_is_pen_mask (Vec ws) = BoolMask (Vec (map is_nonzero_weight ws))"
    using assms(2) by (simp add: get_is_pen_mask_nonempty flat_def)
  show ?thesis
    using assms(1) by (simp add: masked_div_def m mask_index_def bool_index_def np_binop_def
        bc_ok_def 1 2 3)
qed

lemma lasso_max_single:
  "\<not> is_multi_response E y \<Longrightarrow>
   lasso_max E X y fit_intercept loss_func loss_kws weights =
   lasso_max_tail E X y fit_intercept loss_func loss_kws weights"
  by (cases y) simp_all

lemma lasso_max_Vec_weights:
  assumes "grad_at_zero E X y fit_intercept loss_func loss_kws = Inr (Vec g)"
    and "\<not> is_multi_response E y"
    and "length ws = length g" and "ws \<noteq> []"
  shows "lasso_max E X y fit_intercept loss_func loss_kws (Some (Vec ws)) =
           np_max (map (\<lambda>(gj, wj). \<bar>gj / wval wj\<bar>)
                     (filter (\<lambda>(gj, wj). is_nonzero_weight wj) (zip g ws)))"
  using assms(1)
  by (simp add: lasso_max_single [OF assms(2)] lasso_max_tail_def masked_div_Vec [OF assms(3,4)]
      flat_def comp_def case_prod_unfold)

lemma L1toL2_Vec_weights:
  assumes "loss_func \<in> set (MULTI_RESP_LOSSES E)"
    and "grad_at_zero E X y fit_intercept loss_func loss_kws = Inr (Mat G)"
    and "length ws = length G" and "ws \<noteq> []"
  shows "get_L1toL2_max E X y fit_intercept loss_func loss_kws (Some (Vec ws)) =
           np_max (map (\<lambda>(row, wj). np_norm row / wval wj)
                     (filter (\<lambda>(row, wj). is_nonzero_weight wj) (zip G ws)))"
proof -
  have l: "length ws = length (map np_norm G)" using assms(3) by simp
  have z: "zip (map np_norm G) ws = map (\<lambda>(row, wj). (np_norm row, wj)) (zip G ws)"
    by (simp add: zip_map1)
  have f: "map (\<lambda>(x, w). x / wval w)
             (filter (\<lambda>(x, w). is_nonzero_weight w) (zip (map np_norm G) ws)) =
           map (\<lambda>(row, wj). np_norm row / wval wj)
             (filter (\<lambda>(row, wj). is_nonzero_weight wj) (zip G ws))"
    unfolding z by (simp add: filter_map comp_def case_prod_unfold)
  show ?thesis
    using assms(1,2)
    by (simp add: get_L1toL2_max_def row_norms_of_def masked_div_Vec [OF l assms(4)] flat_def f)
qed

text \<open>The entries that \<^verbatim>\<open>grad[grp_idxs]\<close> selects, in row-major order.\<close>

lemma int_index_flat:
  assumes "\<forall>i\<in>set idxs. i < len0 grad"
  shows "int_index grad idxs =
           Inr (case grad of Vec g \<Rightarrow> Vec (map ((!) g) idxs) | Mat m \<Rightarrow> Mat (map ((!) m) idxs))"
  using assms by (cases grad) (simp_all add: int_index_def len0_def list_all_iff)

lemma group_norms_collect:
  assumes "\<forall>grp\<in>set groups. \<forall>i\<in>set grp. i < len0 grad"
  shows "collect (map (\<lambda>grp_idxs. case int_index grad grp_idxs of
                                          Inl e \<Rightarrow> Inl e
                                        | Inr g \<Rightarrow> Inr (np_norm (flat g))) groups) =
         Inr (map (\<lambda>grp. np_norm (case grad of Vec g \<Rightarrow> map ((!) g) grp
                                   | Mat m \<Rightarrow> concat (map ((!) m) grp))) groups)"
  using assms
proof (induction groups)
  case Nil
  show ?case by simp
next
  case (Cons grp groups)
  have 1: "int_index grad grp =
           Inr (case grad of Vec g \<Rightarrow> Vec (map ((!) g) grp) | Mat m \<Rightarrow> Mat (map ((!) m) grp))"
    using Cons.prems by (intro int_index_flat) simp
  have 2: "flat (case grad of Vec g \<Rightarrow> Vec (map ((!) g) grp) | Mat m \<Rightarrow> Mat (map ((!) m) grp)) =
           (case grad of Vec g \<Rightarrow> map ((!) g) grp | Mat m \<Rightarrow> concat (map ((!) m) grp))"
    by (cases grad) (simp_all add: flat_def)
  from Cons show ?case by (simp add: 1 2)
qed

lemma group_lasso_Vec_weights:
  assumes "grad_at_zero E X y fit_intercept loss_func loss_kws = Inr grad"
    and "\<forall>grp\<in>set groups. \<forall>i\<in>set grp. i < len0 grad"
    and "length ws = length groups" and "ws \<noteq> []"
  shows "group_lasso_max E X y groups fit_intercept loss_func loss_kws (Some (Vec ws)) =
           np_max (map (\<lambda>(grp, wj). np_norm (case grad of Vec g \<Rightarrow> map ((!) g) grp
                                               | Mat m \<Rightarrow> concat (map ((!) m) grp)) / wval wj)
                     (filter (\<lambda>(grp, wj). is_nonzero_weight wj) (zip groups ws)))"
proof -
  let ?n = "\<lambda>grp. np_norm (case grad of Vec g \<Rightarrow> map ((!) g) grp
                                   | Mat m \<Rightarrow> concat (map ((!) m) grp))"
  have l: "length ws = length (map ?n groups)" using assms(3) by simp
  have z: "zip (map ?n groups) ws = map (\<lambda>(grp, wj). (?n grp, wj)) (zip groups ws)"
    by (simp add: zip_map1)
  have f: "map (\<lambda>(x, w). x / wval w)
             (filter (\<lambda>(x, w). is_nonzero_weight w) (zip (map ?n groups) ws)) =
           map (\<lambda>(grp, wj). ?n grp / wval wj)
             (filter (\<lambda>(grp, wj). is_nonzero_weight wj) (zip groups ws))"
    unfolding z by (simp add: filter_map comp_def case_prod_unfold)
  show ?thesis
    using assms(1)
    by (simp add: group_lasso_max_def group_norms_collect [OF assms(2)]
        process_weights_group_lasso_def masked_div_Vec [OF l assms(4)] flat_def f)
qed

lemma mask_select_filter: "mask_select ws (map p ws) = filter p ws"
  by (induction ws) (simp_all add: mask_select_def)

lemma nuclear_Vec_weights:
  assumes "loss_func \<in> set (MULTI_RESP_LOSSES E)"
    and "grad_at_zero E X y fit_intercept loss_func loss_kws = Inr grad"
    and "ws \<noteq> []"
  shows "nuclear_norm_max E X y fit_intercept loss_func loss_kws (Some (Vec ws)) =
           map_sum id (\<lambda>smallest. leading_sval E grad / smallest)
             (np_min (map wval (filter is_nonzero_weight ws)))"
proof -
  have m: "get_is_pen_mask (Vec ws) = BoolMask (Vec (map is_nonzero_weight ws))"
    using assms(3) by (simp add: get_is_pen_mask_nonempty flat_def)
  show ?thesis
    using assms(1,2)
    by (cases "np_min (map wval (filter is_nonzero_weight ws))")
       (simp_all add: nuclear_norm_max_def m mask_index_def bool_index_def mask_select_filter
          flat_def)
qed

lemma is_nonzero_weight_iff:
  "is_nonzero_weight w \<longleftrightarrow> w \<noteq> Null \<and> w \<noteq> NaN \<and> 1 / 2 ^ 52 < \<bar>wval w\<bar>"
  by (cases w) (simp_all add: is_nonzero_weight_def wval_def float_eps_def)

lemma not_is_nonzero_weight_iff:
  "\<not> is_nonzero_weight w \<longleftrightarrow> w = Null \<or> w = NaN \<or> \<bar>wval w\<bar> \<le> 1 / 2 ^ 52"
  by (auto simp: is_nonzero_weight_iff)

lemma collect_Inr_iff: "collect xs = Inr vs \<longleftrightarrow> xs = map Inr vs"
proof (induction xs arbitrary: vs)
  case Nil
  show ?case by auto
next
  case (Cons x xs)
  show ?case
  proof (cases x)
    case (Inl e)
    then show ?thesis by (cases vs) auto
  next
    case (Inr v)
    show ?thesis
    proof (cases "collect xs")
      case (Inl e)
      with Cons [of "tl vs"] Inr show ?thesis by (cases vs) auto
    next
      case r: (Inr ws)
      with Cons [of ws] have xs: "xs = map Inr ws" by simp
      from Cons [of "tl vs"] r Inr xs show ?thesis
        by (cases vs) (auto simp: inj_map_eq_map [OF inj_Inr])
    qed
  qed
qed

lemma collect_Inl_head: "collect (Inl e # xs) = Inl e"
  by simp

lemma np_max_Inr_iff: "np_max xs = Inr b \<longleftrightarrow> xs \<noteq> [] \<and> b = Max (set xs)"
  by (cases "xs = []") (auto simp: np_max_Nil np_max_Max)

section \<open>The lasso bound over the penalized coordinates\<close>

lemma lasso_max_Mat_multi:
  assumes "is_multi_response E (Mat m)"
  shows "lasso_max E X (Mat m) fit_intercept loss_func loss_kws weights =
           (case collect
                   (map (\<lambda>c. case weights_col weights c of
                               Inl e \<Rightarrow> Inl e
                             | Inr w \<Rightarrow>
                                 lasso_max E X (Vec (map (\<lambda>r. r ! c) m))
                                   fit_intercept loss_func loss_kws w)
                        [0..<ncols m]) of
              Inl e \<Rightarrow> Inl e
            | Inr resp_maxes \<Rightarrow> np_max resp_maxes)"
  by (subst lasso_max.simps(2)) (simp only: assms if_True)

text \<open>
  Claim C1. A coordinate is penalized iff its weight is not \<^verbatim>\<open>None\<close>, not NaN and larger
  than machine epsilon \<open>2\<^sup>-\<^sup>5\<^sup>2\<close> in absolute value: for a weights array with at least one
  entry the mask of \<^verbatim>\<open>get_is_pen_mask\<close> holds exactly this test for every entry. Each of
  the four bounds is computed from the penalized coordinates alone. With a weights
  vector \<open>ws\<close> that has at least one entry and fits the gradient at zero,
  \<^item> \<^verbatim>\<open>lasso_max\<close>, for a response that is not split, is the largest \<open>\<bar>g\<^sub>j / w\<^sub>j\<bar>\<close> over
    the penalized coordinates \<open>j\<close>;
  \<^item> \<^verbatim>\<open>get_L1toL2_max\<close> is the largest norm of a row of the gradient divided by the weight
    of the row, over the penalized rows;
  \<^item> \<^verbatim>\<open>group_lasso_max\<close> is the largest norm of the gradient on a group divided by the
    weight of the group, over the penalized groups;
  \<^item> \<^verbatim>\<open>nuclear_norm_max\<close> is the leading singular value divided by the smallest of the
    penalized weights.

  A maximum or minimum over no coordinate raises ValueError. The witness runs the
  gradient \<open>[5, 100, 3]\<close> with the weights \<open>[1, 0, 1]\<close>, for which the lasso bound is 5,
  every bound with a weight 0 on the coordinate that would otherwise decide it, and the
  mask with weights on both sides of machine epsilon.
\<close>
theorem bounds_over_penalized_coordinates:
  "(let pen = (\<lambda>w. w \<noteq> Null \<and> w \<noteq> NaN \<and> 1 / 2 ^ 52 < \<bar>wval w\<bar>) in
    (flat W \<noteq> [] \<longrightarrow> get_is_pen_mask W = BoolMask (map_ndarray pen W)) \<and>
    (\<not> is_multi_response E y \<and>
     grad_at_zero E X y fit_intercept loss_func loss_kws = Inr (Vec g) \<and>
     length ws = length g \<and> ws \<noteq> [] \<longrightarrow>
       lasso_max E X y fit_intercept loss_func loss_kws (Some (Vec ws)) =
         np_max (map (\<lambda>(gj, wj). \<bar>gj / wval wj\<bar>) (filter (\<lambda>(gj, wj). pen wj) (zip g ws)))) \<and>
    (loss_func \<in> set (MULTI_RESP_LOSSES E) \<and>
     grad_at_zero E X y fit_intercept loss_func loss_kws = Inr (Mat G) \<and>
     length ws = length G \<and> ws \<noteq> [] \<longrightarrow>
       get_L1toL2_max E X y fit_intercept loss_func loss_kws (Some (Vec ws)) =
         np_max (map (\<lambda>(row, wj). np_norm row / wval wj)
                   (filter (\<lambda>(row, wj). pen wj) (zip G ws)))) \<and>
    (grad_at_zero E X y fit_intercept loss_func loss_kws = Inr grad \<and>
     (\<forall>grp\<in>set groups. \<forall>i\<in>set grp. i < len0 grad) \<and>
     length ws = length groups \<and> ws \<noteq> [] \<longrightarrow>
       group_lasso_max E X y groups fit_intercept loss_func loss_kws (Some (Vec ws)) =
         np_max (map (\<lambda>(grp, wj). np_norm (case grad of Vec g \<Rightarrow> map ((!) g) grp
                                             | Mat m \<Rightarrow> concat (map ((!) m) grp)) / wval wj)
                   (filter (\<lambda>(grp, wj). pen wj) (zip groups ws)))) \<and>
    (loss_func \<in> set (MULTI_RESP_LOSSES E) \<and>
     grad_at_zero E X y fit_intercept loss_func loss_kws = Inr grad \<and> ws \<noteq> [] \<longrightarrow>
       nuclear_norm_max E X y fit_intercept loss_func loss_kws (Some (Vec ws)) =
         map_sum id (\<lambda>smallest. leading_sval E grad / smallest)
           (np_min (map wval (filter pen ws)))))"
proof -
  have p: "(\<lambda>w. w \<noteq> Null \<and> w \<noteq> NaN \<and> 1 / 2 ^ 52 < \<bar>wval w\<bar>) = is_nonzero_weight"
    by (rule ext) (simp only: is_nonzero_weight_iff)
  show ?thesis
    unfolding Let_def p
    using get_is_pen_mask_nonempty [of W]
      lasso_max_Vec_weights [of E X y fit_intercept loss_func loss_kws g ws]
      L1toL2_Vec_weights [of loss_func E X y fit_intercept loss_kws G ws]
      group_lasso_Vec_weights [of E X y fit_intercept loss_func loss_kws grad groups ws]
      nuclear_Vec_weights [of loss_func E X y fit_intercept loss_kws grad ws]
    by blast
qed

lemma sqrt_25: "sqrt 25 = 5"
proof -
  have "sqrt (5\<^sup>2) = \<bar>5 :: real\<bar>" by (rule real_sqrt_abs)
  then show ?thesis by simp
qed

lemma np_norm_3_4: "np_norm [3, 4] = 5"
  by (simp add: np_norm_def sqrt_25)

lemma np_norm_3_4_zeros: "np_norm [3, 4, 0, 0, 0, 0] = 5"
  by (simp add: np_norm_def sqrt_25)

lemma np_norm_one_entry: "np_norm [a, 0] = \<bar>a\<bar>"
  by (simp add: np_norm_def)

lemma grad_at_zero_identity_design:
  "grad_at_zero example_ext [[1, 0, 0], [0, 1, 0], [0, 0, 1]] (Vec [15, 300, 9]) False ''lin_reg'' [] =
     Inr (Vec [5, 100, 3])"
  by (simp add: grad_at_zero_def g0_lin_reg_def XT_matmul_def dot_def)

lemma grad_at_zero_rows_example:
  "grad_at_zero example_ext [[1, 0, 0], [0, 1, 0], [0, 0, 1]] (Mat [[9, 12], [300, 0], [9, 0]])
     False ''lin_reg_mr'' [] = Inr (Mat [[3, 4], [100, 0], [3, 0]])"
  by (simp add: grad_at_zero_def g0_lin_reg_mr_def XT_matmul_def dot_def)

lemma grad_at_zero_groups_example:
  "grad_at_zero example_ext [[1, 0, 0], [0, 1, 0], [0, 0, 1]] (Vec [9, 12, 300]) False ''lin_reg'' [] =
     Inr (Vec [3, 4, 100])"
  by (simp add: grad_at_zero_def g0_lin_reg_def XT_matmul_def dot_def)

lemma grad_at_zero_rank_one_example:
  "grad_at_zero example_ext [[1, 0, 0], [0, 1, 0], [0, 0, 1]] (Mat [[9, 12], [0, 0], [0, 0]])
     False ''lin_reg_mr'' [] = Inr (Mat [[3, 4], [0, 0], [0, 0]])"
  by (simp add: grad_at_zero_def g0_lin_reg_mr_def XT_matmul_def dot_def)

theorem bounds_over_penalized_coordinates_witness:
  "get_is_pen_mask (Vec [Num 1, Num (1 / 2 ^ 52), Num (- (3 / 2 ^ 53)), NaN, Null, Num 0]) =
     BoolMask (Vec [True, False, True, False, False, False]) \<and>
   grad_at_zero example_ext [[1, 0, 0], [0, 1, 0], [0, 0, 1]] (Vec [15, 300, 9]) False ''lin_reg'' [] =
     Inr (Vec [5, 100, 3]) \<and>
   lasso_max example_ext [[1, 0, 0], [0, 1, 0], [0, 0, 1]] (Vec [15, 300, 9]) False ''lin_reg'' []
     (Some (Vec [Num 1, Num 0, Num 1])) = Inr 5 \<and>
   lasso_max example_ext [[1, 0, 0], [0, 1, 0], [0, 0, 1]] (Vec [15, 300, 9]) False ''lin_reg'' []
     (Some (Vec [Num (- 2), Num 0, Num (1 / 2)])) = Inr 6 \<and>
   grad_at_zero example_ext [[1, 0, 0], [0, 1, 0], [0, 0, 1]] (Mat [[9, 12], [300, 0], [9, 0]])
     False ''lin_reg_mr'' [] = Inr (Mat [[3, 4], [100, 0], [3, 0]]) \<and>
   get_L1toL2_max example_ext [[1, 0, 0], [0, 1, 0], [0, 0, 1]] (Mat [[9, 12], [300, 0], [9, 0]])
     False ''lin_reg_mr'' [] (Some (Vec [Num 1, Num 0, Num (1 / 2)])) = Inr 6 \<and>
   grad_at_zero example_ext [[1, 0, 0], [0, 1, 0], [0, 0, 1]] (Vec [9, 12, 300]) False ''lin_reg'' [] =
     Inr (Vec [3, 4, 100]) \<and>
   group_lasso_max example_ext [[1, 0, 0], [0, 1, 0], [0, 0, 1]] (Vec [9, 12, 300])
     [[0, 1], [2]] False ''lin_reg'' [] (Some (Vec [Num (1 / 2), Num 0])) = Inr 10 \<and>
   grad_at_zero example_ext [[1, 0, 0], [0, 1, 0], [0, 0, 1]] (Mat [[9, 12], [0, 0], [0, 0]])
     False ''lin_reg_mr'' [] = Inr (Mat [[3, 4], [0, 0], [0, 0]]) \<and>
   nuclear_norm_max example_ext [[1, 0, 0], [0, 1, 0], [0, 0, 1]] (Mat [[9, 12], [0, 0], [0, 0]])
     False ''lin_reg_mr'' [] (Some (Vec [Num 2, Num (1 / 2 ^ 52), Num (1 / 2)])) = Inr 10"
proof -
  let ?X = "[[1, 0, 0], [0, 1, 0], [0, 0, 1 :: real]]"
  have m: "get_is_pen_mask (Vec [Num 1, Num (1 / 2 ^ 52), Num (- (3 / 2 ^ 53)), NaN, Null, Num 0]) =
     BoolMask (Vec [True, False, True, False, False, False])"
    using bounds_over_penalized_coordinates
      [where W = "Vec [Num 1, Num (1 / 2 ^ 52), Num (- (3 / 2 ^ 53)), NaN, Null, Num 0]"]
    by (simp add: Let_def flat_def wval_def)
  have s: "\<not> is_multi_response example_ext (Vec [15, 300, 9])"
    by (simp add: example_ext_def)
  have a: "lasso_max example_ext ?X (Vec [15, 300, 9]) False ''lin_reg'' []
     (Some (Vec [Num 1, Num 0, Num 1])) = Inr 5"
    using bounds_over_penalized_coordinates
      [where E = example_ext and X = ?X and y = "Vec [15, 300, 9]" and fit_intercept = False
         and loss_func = "''lin_reg''" and loss_kws = "[]" and g = "[5, 100, 3]"
         and ws = "[Num 1, Num 0, Num 1]"]
      s grad_at_zero_identity_design
    by (simp add: Let_def wval_def np_max_def)
  have a2: "lasso_max example_ext ?X (Vec [15, 300, 9]) False ''lin_reg'' []
     (Some (Vec [Num (- 2), Num 0, Num (1 / 2)])) = Inr 6"
    using bounds_over_penalized_coordinates
      [where E = example_ext and X = ?X and y = "Vec [15, 300, 9]" and fit_intercept = False
         and loss_func = "''lin_reg''" and loss_kws = "[]" and g = "[5, 100, 3]"
         and ws = "[Num (- 2), Num 0, Num (1 / 2)]"]
      s grad_at_zero_identity_design
    by (simp add: Let_def wval_def np_max_def)
  have l: "''lin_reg_mr'' \<in> set (MULTI_RESP_LOSSES example_ext)"
    by (simp add: example_ext_def)
  have b: "get_L1toL2_max example_ext ?X (Mat [[9, 12], [300, 0], [9, 0]])
     False ''lin_reg_mr'' [] (Some (Vec [Num 1, Num 0, Num (1 / 2)])) = Inr 6"
    using bounds_over_penalized_coordinates
      [where E = example_ext and X = ?X and y = "Mat [[9, 12], [300, 0], [9, 0]]"
         and fit_intercept = False
         and loss_func = "''lin_reg_mr''" and loss_kws = "[]" and G = "[[3, 4], [100, 0], [3, 0]]"
         and ws = "[Num 1, Num 0, Num (1 / 2)]"]
      l grad_at_zero_rows_example
    by (simp add: Let_def wval_def np_max_def np_norm_3_4 np_norm_one_entry)
  have r: "\<forall>grp\<in>set [[0, 1], [2 :: nat]]. \<forall>i\<in>set grp. i < len0 (Vec [3, 4, 100 :: real])"
    by (simp add: len0_def)
  have c: "group_lasso_max example_ext ?X (Vec [9, 12, 300])
     [[0, 1], [2]] False ''lin_reg'' [] (Some (Vec [Num (1 / 2), Num 0])) = Inr 10"
    using bounds_over_penalized_coordinates
      [where E = example_ext and X = ?X and y = "Vec [9, 12, 300]"
         and fit_intercept = False
         and loss_func = "''lin_reg''" and loss_kws = "[]" and grad = "Vec [3, 4, 100]"
         and groups = "[[0, 1], [2]]" and ws = "[Num (1 / 2), Num 0]"]
      r grad_at_zero_groups_example
    by (simp add: Let_def wval_def np_max_def np_norm_3_4)
  have d: "nuclear_norm_max example_ext ?X (Mat [[9, 12], [0, 0], [0, 0]])
     False ''lin_reg_mr'' [] (Some (Vec [Num 2, Num (1 / 2 ^ 52), Num (1 / 2)])) = Inr 10"
    using bounds_over_penalized_coordinates
      [where E = example_ext and X = ?X and y = "Mat [[9, 12], [0, 0], [0, 0]]"
         and fit_intercept = False
         and loss_func = "''lin_reg_mr''" and loss_kws = "[]"
         and grad = "Mat [[3, 4], [0, 0], [0, 0]]"
         and ws = "[Num 2, Num (1 / 2 ^ 52), Num (1 / 2)]"]
      l grad_at_zero_rank_one_example
    by (simp add: Let_def wval_def np_min_def example_ext_def flat_def np_norm_3_4_zeros)
  from m a a2 b c d grad_at_zero_identity_design grad_at_zero_rows_example
    grad_at_zero_groups_example grad_at_zero_rank_one_example
  show ?thesis by (intro conjI)
qed

lemma lasso_max_columns:
  assumes "is_multi_response E (Mat m)"
    and "\<And>c. c < ncols m \<Longrightarrow> weights_col weights c = Inr (wc c)"
  shows "lasso_max E X (Mat m) fit_intercept loss_func loss_kws weights = Inr b \<longleftrightarrow>
           (\<exists>bs. length bs = ncols m \<and> bs \<noteq> [] \<and> b = Max (set bs) \<and>
              (\<forall>c<ncols m.
                 lasso_max E X (Vec (map (\<lambda>r. r ! c) m)) fit_intercept loss_func loss_kws (wc c)
                   = Inr (bs ! c)))"
    (is "?L \<longleftrightarrow> ?R")
proof -
  define f where "f = (\<lambda>c. case weights_col weights c of
                   Inl e \<Rightarrow> Inl e
                 | Inr w \<Rightarrow> lasso_max E X (Vec (map (\<lambda>r. r ! c) m)) fit_intercept loss_func loss_kws w)"
  define h where "h = (\<lambda>c. lasso_max E X (Vec (map (\<lambda>r. r ! c) m)) fit_intercept loss_func loss_kws (wc c))"
  define xs where "xs = map f [0..<ncols m]"
  have unf: "lasso_max E X (Mat m) fit_intercept loss_func loss_kws weights =
               (case collect xs of Inl e \<Rightarrow> Inl e | Inr resp_maxes \<Rightarrow> np_max resp_maxes)"
    unfolding xs_def f_def by (rule lasso_max_Mat_multi [OF assms(1)])
  have col: "f c = h c" if "c < ncols m" for c
    unfolding f_def h_def by (simp only: assms(2) [OF that] sum.case)
  have R: "?R \<longleftrightarrow> (\<exists>bs. length bs = ncols m \<and> bs \<noteq> [] \<and> b = Max (set bs) \<and>
              (\<forall>c<ncols m. h c = Inr (bs ! c)))"
    unfolding h_def ..
  show ?thesis
  proof
    assume ?L
    with unf obtain bs where bs: "collect xs = Inr bs" "np_max bs = Inr b"
      by (cases "collect xs") auto
    from bs(1) have eq: "xs = map Inr bs" by (simp only: collect_Inr_iff)
    have "length xs = ncols m" by (simp add: xs_def)
    with eq have len: "length bs = ncols m" by simp
    have "\<forall>c<ncols m. h c = Inr (bs ! c)"
    proof (intro allI impI)
      fix c assume c: "c < ncols m"
      have "xs ! c = f c" using c by (simp add: xs_def)
      moreover have "xs ! c = Inr (bs ! c)" using eq c len by simp
      ultimately show "h c = Inr (bs ! c)" using col [OF c] by simp
    qed
    moreover from bs(2) have "bs \<noteq> []" "b = Max (set bs)" by (simp_all add: np_max_Inr_iff)
    ultimately show ?R unfolding R using len by blast
  next
    assume ?R
    then obtain bs where bs: "length bs = ncols m" "bs \<noteq> []" "b = Max (set bs)"
      "\<forall>c<ncols m. h c = Inr (bs ! c)"
      unfolding R by blast
    have "xs = map Inr bs"
      using bs(1,4) col by (intro nth_equalityI) (simp_all add: xs_def)
    then have "collect xs = Inr bs" by (simp only: collect_Inr_iff)
    with unf bs(2,3) show ?L by (simp add: np_max_Inr_iff)
  qed
qed

lemma weights_col_Mat:
  assumes "\<forall>r\<in>set W. length r = n" and "W \<noteq> []" and "c < n"
  shows "weights_col (Some (Mat W)) c = Inr (Some (Vec (map (\<lambda>r. r ! c) W)))"
proof -
  have "ncols W = n" using assms(1,2) by (cases W) (simp_all add: ncols_def)
  then show ?thesis using assms(1,3) by (simp add: weights_col_def take_col_def list_all_iff)
qed

text \<open>
  Claim C2. For a response \<open>y\<close> that \<^verbatim>\<open>is_multi_response\<close> accepts, whatever the loss,
  \<^verbatim>\<open>lasso_max\<close> returns a value \<open>b\<close> exactly when \<open>y\<close> has at least one column,
  \<^verbatim>\<open>lasso_max\<close> returns a value for every column \<open>y[:, c]\<close> taken with the \<open>c\<close>-th column
  of the weights, and \<open>b\<close> is the maximum of these values. Without weights every column
  is run without weights. A weights matrix \<open>W\<close> has one row per feature and one column
  per response; the call for response \<open>c\<close> gets the vector of the \<open>c\<close>-th entries of its
  rows. An exception for one column is an exception of the whole call.
\<close>
theorem lasso_max_multi_response:
  assumes "is_multi_response E (Mat m)"
  shows "(lasso_max E X (Mat m) fit_intercept loss_func loss_kws None = Inr b \<longleftrightarrow>
            (\<exists>bs. length bs = ncols m \<and> bs \<noteq> [] \<and> b = Max (set bs) \<and>
               (\<forall>c<ncols m.
                  lasso_max E X (Vec (map (\<lambda>r. r ! c) m)) fit_intercept loss_func loss_kws None
                    = Inr (bs ! c)))) \<and>
         (W \<noteq> [] \<and> (\<forall>r\<in>set W. length r = ncols m) \<longrightarrow>
            (lasso_max E X (Mat m) fit_intercept loss_func loss_kws (Some (Mat W)) = Inr b \<longleftrightarrow>
               (\<exists>bs. length bs = ncols m \<and> bs \<noteq> [] \<and> b = Max (set bs) \<and>
                  (\<forall>c<ncols m.
                     lasso_max E X (Vec (map (\<lambda>r. r ! c) m)) fit_intercept loss_func loss_kws
                       (Some (Vec (map (\<lambda>r. r ! c) W))) = Inr (bs ! c)))))"
proof (intro conjI impI)
  show "lasso_max E X (Mat m) fit_intercept loss_func loss_kws None = Inr b \<longleftrightarrow>
            (\<exists>bs. length bs = ncols m \<and> bs \<noteq> [] \<and> b = Max (set bs) \<and>
               (\<forall>c<ncols m.
                  lasso_max E X (Vec (map (\<lambda>r. r ! c) m)) fit_intercept loss_func loss_kws None
                    = Inr (bs ! c)))"
    by (rule lasso_max_columns [OF assms, where wc = "\<lambda>c. None"]) (simp add: weights_col_def)
next
  assume w: "W \<noteq> [] \<and> (\<forall>r\<in>set W. length r = ncols m)"
  show "lasso_max E X (Mat m) fit_intercept loss_func loss_kws (Some (Mat W)) = Inr b \<longleftrightarrow>
               (\<exists>bs. length bs = ncols m \<and> bs \<noteq> [] \<and> b = Max (set bs) \<and>
                  (\<forall>c<ncols m.
                     lasso_max E X (Vec (map (\<lambda>r. r ! c) m)) fit_intercept loss_func loss_kws
                       (Some (Vec (map (\<lambda>r. r ! c) W))) = Inr (bs ! c)))"
  proof (rule lasso_max_columns [OF assms, where wc = "\<lambda>c. Some (Vec (map (\<lambda>r. r ! c) W))"])
    fix c assume "c < ncols m"
    with w show "weights_col (Some (Mat W)) c = Inr (Some (Vec (map (\<lambda>r. r ! c) W)))"
      by (intro weights_col_Mat [where n = "ncols m"]) simp_all
  qed
qed

theorem lasso_max_multi_response_witness:
  "is_multi_response example_ext (Mat [[2, 6], [4, 8]]) \<and>
   lasso_max example_ext [[1, 0], [0, 1]] (Vec [2, 4]) False ''lin_reg'' [] None = Inr 2 \<and>
   lasso_max example_ext [[1, 0], [0, 1]] (Vec [6, 8]) False ''lin_reg'' [] None = Inr 4 \<and>
   lasso_max example_ext [[1, 0], [0, 1]] (Mat [[2, 6], [4, 8]]) False ''lin_reg'' [] None = Inr 4 \<and>
   lasso_max example_ext [[1, 0], [0, 1]] (Vec [2, 4]) False ''lin_reg'' []
     (Some (Vec [Num 1, Num 4])) = Inr 1 \<and>
   lasso_max example_ext [[1, 0], [0, 1]] (Vec [6, 8]) False ''lin_reg'' []
     (Some (Vec [Num 0, Num 8])) = Inr (1 / 2) \<and>
   lasso_max example_ext [[1, 0], [0, 1]] (Mat [[2, 6], [4, 8]]) False ''lin_reg'' []
     (Some (Mat [[Num 1, Num 0], [Num 4, Num 8]])) = Inr 1"
proof -
  let ?X = "[[1, 0], [0, 1 :: real]]"
  let ?W = "[[Num 1, Num 0], [Num 4, Num 8]]"
  have m: "is_multi_response example_ext (Mat [[2, 6], [4, 8]])"
    by (simp add: example_ext_def ncols_def)
  have g0: "grad_at_zero example_ext ?X (Vec [2, 4]) False ''lin_reg'' [] = Inr (Vec [1, 2])"
    by (simp add: grad_at_zero_def g0_lin_reg_def XT_matmul_def dot_def)
  have g1: "grad_at_zero example_ext ?X (Vec [6, 8]) False ''lin_reg'' [] = Inr (Vec [3, 4])"
    by (simp add: grad_at_zero_def g0_lin_reg_def XT_matmul_def dot_def)
  have s: "\<not> is_multi_response example_ext (Vec v)" for v
    by (simp add: example_ext_def)
  have a: "lasso_max example_ext ?X (Vec [2, 4]) False ''lin_reg'' [] None = Inr 2"
    by (simp add: s lasso_max_tail_def g0 flat_def np_max_def)
  have b: "lasso_max example_ext ?X (Vec [6, 8]) False ''lin_reg'' [] None = Inr 4"
    by (simp add: s lasso_max_tail_def g1 flat_def np_max_def)
  have c: "lasso_max example_ext ?X (Vec [2, 4]) False ''lin_reg'' []
     (Some (Vec [Num 1, Num 4])) = Inr 1"
    using lasso_max_Vec_weights [OF g0 s, of "[Num 1, Num 4]"]
    by (simp add: is_nonzero_weight_def float_eps_def wval_def np_max_def)
  have d: "lasso_max example_ext ?X (Vec [6, 8]) False ''lin_reg'' []
     (Some (Vec [Num 0, Num 8])) = Inr (1 / 2)"
    using lasso_max_Vec_weights [OF g1 s, of "[Num 0, Num 8]"]
    by (simp add: is_nonzero_weight_def float_eps_def wval_def np_max_def)
  have n: "ncols [[2, 6], [4, 8 :: real]] = 2" by (simp add: ncols_def)
  have all2: "(\<forall>c<2. P c) \<longleftrightarrow> P 0 \<and> P (Suc 0)" for P :: "nat \<Rightarrow> bool"
    by (auto simp: less_Suc_eq numeral_2_eq_2)
  have e1: "\<exists>bs. length bs = ncols [[2, 6], [4, 8 :: real]] \<and> bs \<noteq> [] \<and> (4::real) = Max (set bs) \<and>
          (\<forall>c<ncols [[2, 6], [4, 8 :: real]].
             lasso_max example_ext ?X (Vec (map (\<lambda>r. r ! c) [[2, 6], [4, 8]]))
               False ''lin_reg'' [] None = Inr (bs ! c))"
    using a b by (intro exI [of _ "[2, 4]"]) (simp add: n all2 del: lasso_max.simps)
  have e2: "\<exists>bs. length bs = ncols [[2, 6], [4, 8 :: real]] \<and> bs \<noteq> [] \<and> (1::real) = Max (set bs) \<and>
          (\<forall>c<ncols [[2, 6], [4, 8 :: real]].
             lasso_max example_ext ?X (Vec (map (\<lambda>r. r ! c) [[2, 6], [4, 8]]))
               False ''lin_reg'' [] (Some (Vec (map (\<lambda>r. r ! c) ?W))) = Inr (bs ! c))"
    using c d by (intro exI [of _ "[1, 1 / 2]"]) (simp add: n all2 del: lasso_max.simps)
  have w: "?W \<noteq> [] \<and> (\<forall>r\<in>set ?W. length r = ncols [[2, 6], [4, 8 :: real]])"
    by (simp add: n)
  from lasso_max_multi_response [OF m, of ?X False "''lin_reg''" "[]" 4 ?W] e1
  have f: "lasso_max example_ext ?X (Mat [[2, 6], [4, 8]]) False ''lin_reg'' [] None = Inr 4"
    by blast
  from lasso_max_multi_response [OF m, of ?X False "''lin_reg''" "[]" 1 ?W] e2 w
  have g: "lasso_max example_ext ?X (Mat [[2, 6], [4, 8]]) False ''lin_reg'' []
     (Some (Mat ?W)) = Inr 1"
    by blast
  from m a b f c d g show ?thesis by (intro conjI)
qed

section \<open>No penalized coordinate\<close>

lemma mask_select_none: "\<forall>b\<in>set bs. \<not> b \<Longrightarrow> mask_select xs bs = []"
proof -
  assume a: "\<forall>b\<in>set bs. \<not> b"
  have "filter snd (zip xs bs) = []"
    unfolding filter_empty_conv using a by (auto dest: set_zip_rightD)
  then show ?thesis by (simp add: mask_select_def)
qed

lemma mask_none:
  assumes "\<forall>w\<in>set (flat W). \<not> is_nonzero_weight w"
  shows "\<forall>b\<in>set (flat (map_ndarray is_nonzero_weight W)). \<not> b"
  using assms by (cases W) (auto simp: flat_def)

lemma bool_index_none:
  assumes "\<forall>b\<in>set (flat msk). \<not> b" and "bool_index a msk = Inr sel"
  shows "flat sel = [] \<and> (sel = Vec [] \<or> sel = Mat [])"
  using assms
  by (cases a; cases msk)
     (auto simp: bool_index_def flat_def mask_select_none split: if_splits)

lemma np_binop_empty:
  assumes "sel = Vec [] \<or> sel = Mat []"
  shows "np_binop f sel (Vec []) = Inr sel"
  using assms by (auto simp: np_binop_def bc_ok_def bc2_def ncols_def)

lemma masked_div_none:
  assumes "\<forall>w\<in>set (flat W). \<not> is_nonzero_weight w"
  shows "(\<exists>e. masked_div a W = Inl e) \<or> (\<exists>q. masked_div a W = Inr q \<and> flat q = [])"
proof (cases "flat W = []")
  case True
  then show ?thesis by (simp add: masked_div_empty)
next
  case False
  let ?msk = "map_ndarray is_nonzero_weight W"
  have m: "get_is_pen_mask W = BoolMask ?msk" by (rule get_is_pen_mask_nonempty [OF False])
  show ?thesis
  proof (cases "bool_index a ?msk")
    case (Inl e)
    then show ?thesis by (simp add: masked_div_def m mask_index_def)
  next
    case (Inr sel)
    from bool_index_none [OF mask_none [OF assms] Inr]
    have sel: "flat sel = []" "sel = Vec [] \<or> sel = Mat []" by simp_all
    show ?thesis
    proof (cases "bool_index W ?msk")
      case (Inl e)
      with Inr show ?thesis by (simp add: masked_div_def m mask_index_def)
    next
      case den: (Inr d)
      from bool_index_none [OF mask_none [OF assms] den]
      have "d = Vec [] \<or> d = Mat []" by simp
      moreover have "d \<noteq> Mat []"
        using den by (cases W) (auto simp: bool_index_def split: if_splits)
      ultimately have d: "d = Vec []" by simp
      have "masked_div a W = Inr sel"
        using Inr den d np_binop_empty [OF sel(2)] by (simp add: masked_div_def m mask_index_def)
      with sel(1) show ?thesis by simp
    qed
  qed
qed

lemma masked_div_none_fits:
  assumes "\<forall>w\<in>set ws. \<not> is_nonzero_weight w" and "length ws = length a" and "ws \<noteq> []"
  shows "masked_div (Vec a) (Vec ws) = Inr (Vec [])"
proof -
  have "filter (\<lambda>(x, w). is_nonzero_weight w) (zip a ws) = []"
    unfolding filter_empty_conv using assms(1) by (auto dest: set_zip_rightD)
  then show ?thesis by (simp add: masked_div_Vec [OF assms(2,3)])
qed

lemma lasso_max_tail_none:
  assumes "\<forall>w\<in>set (flat W). \<not> is_nonzero_weight w"
  shows "\<exists>e. lasso_max_tail E X y fit_intercept loss_func loss_kws (Some W) = Inl e"
proof (cases "grad_at_zero E X y fit_intercept loss_func loss_kws")
  case (Inl e)
  then show ?thesis by (simp add: lasso_max_tail_def)
next
  case (Inr grad)
  from masked_div_none [OF assms, of grad] Inr show ?thesis
    by (auto simp: lasso_max_tail_def np_max_Nil)
qed

lemma lasso_max_Vec_none:
  assumes "\<forall>w\<in>set (flat W). \<not> is_nonzero_weight w"
  shows "\<exists>e. lasso_max E X (Vec v) fit_intercept loss_func loss_kws (Some W) = Inl e"
  using lasso_max_tail_none [OF assms] by simp

lemma take_col_subset:
  "take_col W c = Inr w \<Longrightarrow> set (flat w) \<subseteq> set (flat W)"
proof (cases W)
  case (Vec x)
  assume "take_col W c = Inr w"
  with Vec show ?thesis by (simp add: take_col_def)
next
  case (Mat m)
  assume "take_col W c = Inr w"
  with Mat have w: "w = Vec (map (\<lambda>r. r ! c) m)" and all: "\<forall>r\<in>set m. c < length r"
    by (auto simp: take_col_def list_all_iff split: if_splits)
  have "r ! c \<in> set (concat m)" if "r \<in> set m" for r
  proof -
    from that all have "c < length r" by blast
    then have "r ! c \<in> set r" by simp
    with that show ?thesis by auto
  qed
  then show ?thesis using Mat w by (auto simp: flat_def)
qed

lemma lasso_max_none:
  assumes "\<forall>w\<in>set (flat W). \<not> is_nonzero_weight w"
  shows "\<exists>e. lasso_max E X y fit_intercept loss_func loss_kws (Some W) = Inl e"
proof (cases y)
  case (Vec v)
  then show ?thesis using lasso_max_Vec_none [OF assms] by simp
next
  case (Mat m)
  show ?thesis
  proof (cases "is_multi_response E (Mat m)")
    case False
    then show ?thesis using Mat lasso_max_tail_none [OF assms] by simp
  next
    case True
    let ?f = "\<lambda>c. case weights_col (Some W) c of
                   Inl e \<Rightarrow> Inl e
                 | Inr w \<Rightarrow> lasso_max E X (Vec (map (\<lambda>r. r ! c) m)) fit_intercept loss_func loss_kws w"
    note unf = lasso_max_Mat_multi [OF True, of X fit_intercept loss_func loss_kws "Some W"]
    show ?thesis
    proof (cases "ncols m")
      case 0
      then show ?thesis using Mat unf by (simp add: np_max_Nil)
    next
      case (Suc k)
      have "\<exists>e. ?f 0 = Inl e"
      proof (cases "take_col W 0")
        case (Inl e)
        then show ?thesis by (simp add: weights_col_def)
      next
        case (Inr w)
        from take_col_subset [OF Inr] assms
        have "\<forall>x\<in>set (flat w). \<not> is_nonzero_weight x" by blast
        from lasso_max_Vec_none [OF this] Inr show ?thesis
          by (simp add: weights_col_def del: lasso_max.simps)
      qed
      then obtain e where e: "?f 0 = Inl e" ..
      have "[0..<ncols m] = 0 # [1..<ncols m]"
        using Suc by (simp add: upt_conv_Cons)
      then have "collect (map ?f [0..<ncols m]) = Inl e"
        using e by (simp del: lasso_max.simps)
      with unf Mat show ?thesis by (simp del: lasso_max.simps)
    qed
  qed
qed

lemma np_min_Nil: "np_min [] = Inl ValueError"
  by (simp add: np_min_def)

lemma L1toL2_none:
  assumes "\<forall>w\<in>set (flat W). \<not> is_nonzero_weight w"
  shows "\<exists>e. get_L1toL2_max E X y fit_intercept loss_func loss_kws (Some W) = Inl e"
proof (cases "grad_at_zero E X y fit_intercept loss_func loss_kws")
  case (Inl e)
  then show ?thesis by (simp add: get_L1toL2_max_def)
next
  case (Inr grad)
  show ?thesis
  proof (cases "row_norms_of grad")
    case (Inl e)
    with Inr show ?thesis by (simp add: get_L1toL2_max_def)
  next
    case rn: (Inr row_norms)
    from masked_div_none [OF assms, of row_norms] Inr rn show ?thesis
      by (auto simp: get_L1toL2_max_def np_max_Nil)
  qed
qed

lemma group_lasso_none:
  assumes "\<forall>w\<in>set (flat W). \<not> is_nonzero_weight w"
  shows "\<exists>e. group_lasso_max E X y groups fit_intercept loss_func loss_kws (Some W) = Inl e"
proof (cases "grad_at_zero E X y fit_intercept loss_func loss_kws")
  case (Inl e)
  then show ?thesis by (simp add: group_lasso_max_def)
next
  case (Inr grad)
  show ?thesis
  proof (cases "collect (map (\<lambda>grp_idxs. case int_index grad grp_idxs of
                                          Inl e \<Rightarrow> Inl e
                                        | Inr g \<Rightarrow> Inr (np_norm (flat g))) groups)")
    case (Inl e)
    with Inr show ?thesis by (simp add: group_lasso_max_def)
  next
    case gn: (Inr group_norms)
    from masked_div_none [OF assms, of "Vec group_norms"] Inr gn show ?thesis
      by (auto simp: group_lasso_max_def process_weights_group_lasso_def np_max_Nil)
  qed
qed

lemma nuclear_none:
  assumes "\<forall>w\<in>set (flat W). \<not> is_nonzero_weight w"
  shows "\<exists>e. nuclear_norm_max E X y fit_intercept loss_func loss_kws (Some W) = Inl e"
    and "loss_func \<in> set (MULTI_RESP_LOSSES E) \<Longrightarrow>
         grad_at_zero E X y fit_intercept loss_func loss_kws = Inr grad \<Longrightarrow>
         nuclear_norm_max E X y fit_intercept loss_func loss_kws (Some W) =
           Inl (if flat W = [] then IndexError else ValueError)"
proof -
  have sel: "mask_index W (get_is_pen_mask W) =
               (if flat W = [] then Inl IndexError
                else bool_index W (map_ndarray is_nonzero_weight W))"
    by (simp add: get_is_pen_mask_def mask_index_def)
  obtain d where d: "bool_index W (map_ndarray is_nonzero_weight W) = Inr d"
    by (cases W) (simp_all add: bool_index_def comp_def)
  from bool_index_none [OF mask_none [OF assms] d] have e: "flat d = []" by simp
  show "\<exists>e. nuclear_norm_max E X y fit_intercept loss_func loss_kws (Some W) = Inl e"
    using sel d e
    by (cases "grad_at_zero E X y fit_intercept loss_func loss_kws")
       (simp_all add: nuclear_norm_max_def np_min_Nil)
  show "nuclear_norm_max E X y fit_intercept loss_func loss_kws (Some W) =
           Inl (if flat W = [] then IndexError else ValueError)"
    if "loss_func \<in> set (MULTI_RESP_LOSSES E)"
       "grad_at_zero E X y fit_intercept loss_func loss_kws = Inr grad"
    using that sel d e by (simp add: nuclear_norm_max_def np_min_Nil)
qed

lemma lasso_none_error:
  assumes "\<forall>w\<in>set ws. \<not> is_nonzero_weight w"
    and "\<not> is_multi_response E y"
    and "grad_at_zero E X y fit_intercept loss_func loss_kws = Inr (Vec g)"
    and "length ws = length g"
  shows "lasso_max E X y fit_intercept loss_func loss_kws (Some (Vec ws)) =
           Inl (if ws = [] then IndexError else ValueError)"
proof (cases "ws = []")
  case True
  then show ?thesis
    using assms(3)
    by (simp add: lasso_max_single [OF assms(2)] lasso_max_tail_def masked_div_empty flat_def)
next
  case False
  then show ?thesis
    using assms(3) masked_div_none_fits [OF assms(1,4) False]
    by (simp add: lasso_max_single [OF assms(2)] lasso_max_tail_def flat_def np_max_Nil)
qed

lemma L1toL2_none_error:
  assumes "\<forall>w\<in>set ws. \<not> is_nonzero_weight w"
    and "loss_func \<in> set (MULTI_RESP_LOSSES E)"
    and "grad_at_zero E X y fit_intercept loss_func loss_kws = Inr (Mat G)"
    and "length ws = length G"
  shows "get_L1toL2_max E X y fit_intercept loss_func loss_kws (Some (Vec ws)) =
           Inl (if ws = [] then IndexError else ValueError)"
proof (cases "ws = []")
  case True
  then show ?thesis
    using assms(2,3)
    by (simp add: get_L1toL2_max_def row_norms_of_def masked_div_empty flat_def)
next
  case False
  have "length ws = length (map np_norm G)" using assms(4) by simp
  from masked_div_none_fits [OF assms(1) this False] assms(2,3) False show ?thesis
    by (simp add: get_L1toL2_max_def row_norms_of_def flat_def np_max_Nil)
qed

lemma group_none_error:
  assumes "\<forall>w\<in>set ws. \<not> is_nonzero_weight w"
    and "grad_at_zero E X y fit_intercept loss_func loss_kws = Inr grad"
    and "\<forall>grp\<in>set groups. \<forall>i\<in>set grp. i < len0 grad"
    and "length ws = length groups"
  shows "group_lasso_max E X y groups fit_intercept loss_func loss_kws (Some (Vec ws)) =
           Inl (if ws = [] then IndexError else ValueError)"
proof (cases "ws = []")
  case True
  then show ?thesis
    using assms(2)
    by (simp add: group_lasso_max_def group_norms_collect [OF assms(3)]
        process_weights_group_lasso_def masked_div_empty flat_def)
next
  case False
  let ?ns = "map (\<lambda>grp. np_norm (case grad of Vec g \<Rightarrow> map ((!) g) grp
                                   | Mat m \<Rightarrow> concat (map ((!) m) grp))) groups"
  have "length ws = length ?ns" using assms(4) by simp
  from masked_div_none_fits [OF assms(1) this False] assms(2) False show ?thesis
    by (simp add: group_lasso_max_def group_norms_collect [OF assms(3)]
        process_weights_group_lasso_def flat_def np_max_Nil)
qed

text \<open>
  Claim C3. With a weights vector in which no coordinate is penalized (every weight is
  \<^verbatim>\<open>None\<close>, NaN, or at most machine epsilon \<open>2\<^sup>-\<^sup>5\<^sup>2\<close> in absolute value), none of
  \<^verbatim>\<open>lasso_max\<close>, \<^verbatim>\<open>get_L1toL2_max\<close>, \<^verbatim>\<open>group_lasso_max\<close> and \<^verbatim>\<open>nuclear_norm_max\<close> returns a
  value: each call raises. Whenever the gradient at zero has been computed and the
  weights fit it, the exception is the ValueError that numpy and the builtin \<^verbatim>\<open>max\<close>
  raise for a maximum or minimum over no entries; for a weights vector without any
  entry it is the IndexError of indexing with the mask, which is then an array of
  float64. This is what the spec calls NumericalDegeneracy. Before that point the call
  can only raise earlier (an unsupported loss, a failed assertion, a shape that does not
  fit).
\<close>
theorem bounds_raise_without_penalized:
  assumes "\<forall>w\<in>set ws. w = Null \<or> w = NaN \<or> \<bar>wval w\<bar> \<le> 1 / 2 ^ 52"
  shows "(\<exists>e. lasso_max E X y fit_intercept loss_func loss_kws (Some (Vec ws)) = Inl e) \<and>
         (\<exists>e. get_L1toL2_max E X y fit_intercept loss_func loss_kws (Some (Vec ws)) = Inl e) \<and>
         (\<exists>e. group_lasso_max E X y groups fit_intercept loss_func loss_kws (Some (Vec ws)) = Inl e) \<and>
         (\<exists>e. nuclear_norm_max E X y fit_intercept loss_func loss_kws (Some (Vec ws)) = Inl e) \<and>
         (\<not> is_multi_response E y \<and>
          grad_at_zero E X y fit_intercept loss_func loss_kws = Inr (Vec g) \<and>
          length ws = length g \<longrightarrow>
            lasso_max E X y fit_intercept loss_func loss_kws (Some (Vec ws)) =
              Inl (if ws = [] then IndexError else ValueError)) \<and>
         (loss_func \<in> set (MULTI_RESP_LOSSES E) \<and>
          grad_at_zero E X y fit_intercept loss_func loss_kws = Inr (Mat G) \<and>
          length ws = length G \<longrightarrow>
            get_L1toL2_max E X y fit_intercept loss_func loss_kws (Some (Vec ws)) =
              Inl (if ws = [] then IndexError else ValueError)) \<and>
         (grad_at_zero E X y fit_intercept loss_func loss_kws = Inr grad \<and>
          (\<forall>grp\<in>set groups. \<forall>i\<in>set grp. i < len0 grad) \<and>
          length ws = length groups \<longrightarrow>
            group_lasso_max E X y groups fit_intercept loss_func loss_kws (Some (Vec ws)) =
              Inl (if ws = [] then IndexError else ValueError)) \<and>
         (loss_func \<in> set (MULTI_RESP_LOSSES E) \<and>
          grad_at_zero E X y fit_intercept loss_func loss_kws = Inr grad \<longrightarrow>
            nuclear_norm_max E X y fit_intercept loss_func loss_kws (Some (Vec ws)) =
              Inl (if ws = [] then IndexError else ValueError))"
proof -
  have n: "\<forall>w\<in>set ws. \<not> is_nonzero_weight w"
    using assms by (simp only: not_is_nonzero_weight_iff)
  have f: "\<forall>w\<in>set (flat (Vec ws)). \<not> is_nonzero_weight w"
    using n by (simp add: flat_def)
  have fl: "flat (Vec ws) = [] \<longleftrightarrow> ws = []" by (simp add: flat_def)
  note a = lasso_max_none [OF f, of E X y fit_intercept loss_func loss_kws]
  note b = L1toL2_none [OF f, of E X y fit_intercept loss_func loss_kws]
  note c = group_lasso_none [OF f, of E X y groups fit_intercept loss_func loss_kws]
  note d = nuclear_none(1) [OF f, of E X y fit_intercept loss_func loss_kws]
  have e: "\<not> is_multi_response E y \<and>
          grad_at_zero E X y fit_intercept loss_func loss_kws = Inr (Vec g) \<and>
          length ws = length g \<longrightarrow>
            lasso_max E X y fit_intercept loss_func loss_kws (Some (Vec ws)) =
              Inl (if ws = [] then IndexError else ValueError)"
    using lasso_none_error [OF n] by blast
  have f': "loss_func \<in> set (MULTI_RESP_LOSSES E) \<and>
          grad_at_zero E X y fit_intercept loss_func loss_kws = Inr (Mat G) \<and>
          length ws = length G \<longrightarrow>
            get_L1toL2_max E X y fit_intercept loss_func loss_kws (Some (Vec ws)) =
              Inl (if ws = [] then IndexError else ValueError)"
    using L1toL2_none_error [OF n] by blast
  have g': "grad_at_zero E X y fit_intercept loss_func loss_kws = Inr grad \<and>
          (\<forall>grp\<in>set groups. \<forall>i\<in>set grp. i < len0 grad) \<and>
          length ws = length groups \<longrightarrow>
            group_lasso_max E X y groups fit_intercept loss_func loss_kws (Some (Vec ws)) =
              Inl (if ws = [] then IndexError else ValueError)"
    using group_none_error [OF n] by blast
  have h: "loss_func \<in> set (MULTI_RESP_LOSSES E) \<and>
          grad_at_zero E X y fit_intercept loss_func loss_kws = Inr grad \<longrightarrow>
            nuclear_norm_max E X y fit_intercept loss_func loss_kws (Some (Vec ws)) =
              Inl (if ws = [] then IndexError else ValueError)"
    using nuclear_none(2) [OF f] unfolding fl by blast
  from a b c d e f' g' h show ?thesis by (intro conjI)
qed

lemma grad_at_zero_two_responses:
  "grad_at_zero example_ext [[1, 0, 0], [0, 1, 0], [0, 0, 1]] (Mat [[15, 3], [300, 6], [9, 9]])
     False ''lin_reg_mr'' [] = Inr (Mat [[5, 1], [100, 2], [3, 3]])"
  by (simp add: grad_at_zero_def g0_lin_reg_mr_def XT_matmul_def dot_def)

lemma grad_at_zero_no_feature:
  "grad_at_zero example_ext [[]] (Vec [1]) False ''lin_reg_mr'' [] = Inr (Vec [])"
  by (simp add: grad_at_zero_def g0_lin_reg_mr_def XT_matmul_def dot_def)

lemma grad_at_zero_no_feature_mr:
  "grad_at_zero example_ext [[]] (Mat [[1, 2]]) False ''lin_reg_mr'' [] = Inr (Mat [])"
  by (simp add: grad_at_zero_def g0_lin_reg_mr_def XT_matmul_def dot_def)

theorem bounds_raise_without_penalized_witness:
  "list_all (\<lambda>w. w = Null \<or> w = NaN \<or> \<bar>wval w\<bar> \<le> 1 / 2 ^ 52) [Num (1 / 2 ^ 52), NaN, Null] \<and>
   lasso_max example_ext [[1, 0, 0], [0, 1, 0], [0, 0, 1]] (Vec [15, 300, 9]) False ''lin_reg'' []
     (Some (Vec [Num (1 / 2 ^ 52), NaN, Null])) = Inl ValueError \<and>
   group_lasso_max example_ext [[1, 0, 0], [0, 1, 0], [0, 0, 1]] (Vec [15, 300, 9])
     [[0], [1], [2]] False ''lin_reg'' [] (Some (Vec [Num (1 / 2 ^ 52), NaN, Null])) = Inl ValueError \<and>
   get_L1toL2_max example_ext [[1, 0, 0], [0, 1, 0], [0, 0, 1]] (Mat [[15, 3], [300, 6], [9, 9]])
     False ''lin_reg_mr'' [] (Some (Vec [Num (1 / 2 ^ 52), NaN, Null])) = Inl ValueError \<and>
   nuclear_norm_max example_ext [[1, 0, 0], [0, 1, 0], [0, 0, 1]] (Mat [[15, 3], [300, 6], [9, 9]])
     False ''lin_reg_mr'' [] (Some (Vec [Num (1 / 2 ^ 52), NaN, Null])) = Inl ValueError \<and>
   lasso_max example_ext [[]] (Vec [1]) False ''lin_reg_mr'' [] (Some (Vec [])) = Inl IndexError \<and>
   group_lasso_max example_ext [[]] (Vec [1]) [] False ''lin_reg_mr'' [] (Some (Vec [])) =
     Inl IndexError \<and>
   get_L1toL2_max example_ext [[]] (Mat [[1, 2]]) False ''lin_reg_mr'' [] (Some (Vec [])) =
     Inl IndexError \<and>
   nuclear_norm_max example_ext [[]] (Mat [[1, 2]]) False ''lin_reg_mr'' [] (Some (Vec [])) =
     Inl IndexError"
proof -
  let ?X = "[[1, 0, 0], [0, 1, 0], [0, 0, 1 :: real]]"
  let ?ws = "[Num (1 / 2 ^ 52), NaN, Null]"
  have a: "\<forall>w\<in>set ?ws. w = Null \<or> w = NaN \<or> \<bar>wval w\<bar> \<le> 1 / 2 ^ 52"
    by (simp add: wval_def)
  have e: "\<forall>w\<in>set ([] :: weight list). w = Null \<or> w = NaN \<or> \<bar>wval w\<bar> \<le> 1 / 2 ^ 52"
    by simp
  have s: "\<not> is_multi_response example_ext (Vec v)" for v
    by (simp add: example_ext_def)
  have l: "''lin_reg_mr'' \<in> set (MULTI_RESP_LOSSES example_ext)"
    by (simp add: example_ext_def)
  have r: "\<forall>grp\<in>set [[0], [1], [2::nat]]. \<forall>i\<in>set grp. i < len0 (Vec [5, 100, 3 :: real])"
    by (simp add: len0_def)
  from bounds_raise_without_penalized [OF a, of example_ext ?X
      "Vec [15, 300, 9]" False "''lin_reg''" "[]" "[[0], [1], [2]]" "[5, 100, 3]" "[]"
      "Vec [5, 100, 3]"] grad_at_zero_identity_design s r
  have 1: "lasso_max example_ext ?X (Vec [15, 300, 9]) False ''lin_reg'' []
     (Some (Vec ?ws)) = Inl ValueError"
    and 2: "group_lasso_max example_ext ?X (Vec [15, 300, 9])
     [[0], [1], [2]] False ''lin_reg'' [] (Some (Vec ?ws)) = Inl ValueError"
    by simp_all
  from bounds_raise_without_penalized [OF a, of example_ext ?X
      "Mat [[15, 3], [300, 6], [9, 9]]" False "''lin_reg_mr''" "[]" "[]" "[]"
      "[[5, 1], [100, 2], [3, 3]]" "Mat [[5, 1], [100, 2], [3, 3]]"] grad_at_zero_two_responses l
  have 3: "get_L1toL2_max example_ext ?X (Mat [[15, 3], [300, 6], [9, 9]])
     False ''lin_reg_mr'' [] (Some (Vec ?ws)) = Inl ValueError"
    and 4: "nuclear_norm_max example_ext ?X (Mat [[15, 3], [300, 6], [9, 9]])
     False ''lin_reg_mr'' [] (Some (Vec ?ws)) = Inl ValueError"
    by simp_all
  from bounds_raise_without_penalized [OF e, of example_ext "[[]]"
      "Vec [1]" False "''lin_reg_mr''" "[]" "[]" "[]" "[]" "Vec []"] grad_at_zero_no_feature s
  have 5: "lasso_max example_ext [[]] (Vec [1]) False ''lin_reg_mr'' [] (Some (Vec [])) = Inl IndexError"
    and 6: "group_lasso_max example_ext [[]] (Vec [1]) [] False ''lin_reg_mr'' [] (Some (Vec [])) =
     Inl IndexError"
    by simp_all
  from bounds_raise_without_penalized [OF e, of example_ext "[[]]"
      "Mat [[1, 2]]" False "''lin_reg_mr''" "[]" "[]" "[]" "[]" "Mat []"] grad_at_zero_no_feature_mr l
  have 7: "get_L1toL2_max example_ext [[]] (Mat [[1, 2]]) False ''lin_reg_mr'' [] (Some (Vec [])) =
     Inl IndexError"
    and 8: "nuclear_norm_max example_ext [[]] (Mat [[1, 2]]) False ''lin_reg_mr'' [] (Some (Vec [])) =
     Inl IndexError"
    by simp_all
  have a': "list_all (\<lambda>w. w = Null \<or> w = NaN \<or> \<bar>wval w\<bar> \<le> 1 / 2 ^ 52) ?ws"
    using a by (simp only: list_all_iff)
  from a' 1 2 3 4 5 6 7 8 show ?thesis by (intro conjI)
qed

section \<open>Rescaling the weights\<close>

lemma wval_scale: "wval (scale_weight c w) = c * wval w"
  by (cases w) (simp_all add: scale_weight_def wval_def)

lemma bc2_map_right:
  assumes "\<And>x y. f x (h y) = k (f x y)"
  shows "bc2 f xs (map h ys) = map k (bc2 f xs ys)"
proof -
  have 1: "map2 f xs (map h ys) = map k (map2 f xs ys)"
    by (simp add: zip_map2 assms case_prod_unfold)
  have 2: "(case map h ys of [y] \<Rightarrow> map (\<lambda>x. f x y) xs | _ \<Rightarrow> []) =
           map k (case ys of [y] \<Rightarrow> map (\<lambda>x. f x y) xs | _ \<Rightarrow> [])"
    by (cases ys rule: list.exhaust; cases "tl ys") (auto simp: assms)
  show ?thesis
    unfolding bc2_def using 1 2
    by (cases xs rule: list.exhaust; cases "tl xs") (auto simp: assms)
qed

lemma np_binop_map_right:
  assumes "\<And>x y. f x (h y) = k (f x y)"
  shows "np_binop f a (Vec (map h v)) = map_sum id (map_ndarray k) (np_binop f a (Vec v))"
  by (cases a) (simp_all add: np_binop_def bc2_map_right [where f = f and h = h and k = k, OF assms])

lemma mask_select_map_left: "mask_select (map h xs) bs = map h (mask_select xs bs)"
proof -
  have "zip (map h xs) bs = map (\<lambda>(x, b). (h x, b)) (zip xs bs)"
    by (simp add: zip_map1)
  then show ?thesis
    by (simp add: mask_select_def filter_map comp_def case_prod_unfold)
qed

lemma bool_index_map:
  "bool_index (map_ndarray h a) msk = map_sum id (map_ndarray h) (bool_index a msk)"
  by (cases a; cases msk)
     (simp_all add: bool_index_def mask_select_map_left map_concat [symmetric] comp_def)

lemma mask_unchanged_iff:
  "get_is_pen_mask (scale_weights c W) = get_is_pen_mask W \<longleftrightarrow>
   (\<forall>w\<in>set (flat W). is_nonzero_weight (scale_weight c w) = is_nonzero_weight w)"
  by (cases W) (auto simp: get_is_pen_mask_def scale_weights_def flat_def comp_def)

lemma flat_scale_weights: "flat (scale_weights c W) = [] \<longleftrightarrow> flat W = []"
  by (cases W) (simp_all add: scale_weights_def flat_def)

lemma bool_index_weights_Vec:
  "\<exists>d. bool_index W (map_ndarray is_nonzero_weight W) = Inr (Vec d)"
  by (cases W) (simp_all add: bool_index_def comp_def)

lemma masked_div_scale:
  assumes "get_is_pen_mask (scale_weights c W) = get_is_pen_mask W"
  shows "masked_div a (scale_weights c W) =
         map_sum id (map_ndarray (\<lambda>x. x / c)) (masked_div a W)"
proof (cases "flat W = []")
  case True
  then show ?thesis by (simp add: masked_div_empty flat_scale_weights)
next
  case False
  let ?msk = "map_ndarray is_nonzero_weight W"
  have m: "get_is_pen_mask W = BoolMask ?msk" by (rule get_is_pen_mask_nonempty [OF False])
  show ?thesis
  proof (cases "bool_index a ?msk")
    case (Inl e)
    then show ?thesis by (simp add: masked_div_def assms m mask_index_def)
  next
    case (Inr num)
    obtain d where d: "bool_index W ?msk = Inr (Vec d)"
      using bool_index_weights_Vec by blast
    have sd: "bool_index (scale_weights c W) ?msk = Inr (Vec (map (scale_weight c) d))"
      by (simp add: scale_weights_def bool_index_map d)
    have w: "map (wval \<circ> scale_weight c) d = map (\<lambda>t. c * t) (map wval d)"
      by (simp add: wval_scale comp_def)
    have b: "np_binop (/) num (Vec (map (wval \<circ> scale_weight c) d)) =
          map_sum id (map_ndarray (\<lambda>x. x / c)) (np_binop (/) num (Vec (map wval d)))"
      unfolding w by (rule np_binop_map_right) (simp add: field_simps)
    have L: "masked_div a (scale_weights c W) = np_binop (/) num (Vec (map (wval \<circ> scale_weight c) d))"
      using Inr sd by (simp add: masked_div_def assms m mask_index_def)
    have R: "masked_div a W = np_binop (/) num (Vec (map wval d))"
      using Inr d by (simp add: masked_div_def m mask_index_def)
    show ?thesis by (simp only: L R b)
  qed
qed

lemma fold_max_scale:
  assumes "0 < (c::real)"
  shows "fold max (map (\<lambda>x. x / c) xs) (a / c) = fold max xs a / c"
proof (induction xs arbitrary: a)
  case Nil
  show ?case by simp
next
  case (Cons x xs)
  have "max (x / c) (a / c) = max x a / c"
    using assms by (simp add: max_def divide_le_cancel)
  then show ?case using Cons [of "max x a"] by simp
qed

lemma np_max_scale:
  assumes "0 < (c::real)"
  shows "np_max (map (\<lambda>x. x / c) xs) = map_sum id (\<lambda>b. b / c) (np_max xs)"
  by (cases xs) (simp_all add: np_max_def fold_max_scale [OF assms])

lemma np_max_abs_scale:
  assumes "0 < (c::real)"
  shows "np_max (map abs (flat (map_ndarray (\<lambda>x. x / c) q))) =
         map_sum id (\<lambda>b. b / c) (np_max (map abs (flat q)))"
proof -
  have "map abs (flat (map_ndarray (\<lambda>x. x / c) q)) = map (\<lambda>x. x / c) (map abs (flat q))"
    using assms by (cases q) (simp_all add: flat_def map_concat comp_def abs_divide)
  then show ?thesis by (simp only: np_max_scale [OF assms])
qed

lemma lasso_max_tail_scale:
  assumes "0 < c" and "get_is_pen_mask (scale_weights c W) = get_is_pen_mask W"
  shows "lasso_max_tail E X y fit_intercept loss_func loss_kws (Some (scale_weights c W)) =
         map_sum id (\<lambda>b. b / c) (lasso_max_tail E X y fit_intercept loss_func loss_kws (Some W))"
proof (cases "grad_at_zero E X y fit_intercept loss_func loss_kws")
  case (Inl e)
  then show ?thesis by (simp add: lasso_max_tail_def)
next
  case (Inr grad)
  show ?thesis
  proof (cases "masked_div grad W")
    case (Inl e)
    with Inr show ?thesis by (simp add: lasso_max_tail_def masked_div_scale [OF assms(2)])
  next
    case q: (Inr q)
    have L: "lasso_max_tail E X y fit_intercept loss_func loss_kws (Some (scale_weights c W)) =
               np_max (map abs (flat (map_ndarray (\<lambda>x. x / c) q)))"
      using Inr q by (simp add: lasso_max_tail_def masked_div_scale [OF assms(2)])
    have R: "lasso_max_tail E X y fit_intercept loss_func loss_kws (Some W) =
               np_max (map abs (flat q))"
      using Inr q by (simp add: lasso_max_tail_def)
    show ?thesis by (simp only: L R np_max_abs_scale [OF assms(1)])
  qed
qed

lemma collect_map_sum:
  "collect (map (map_sum id g) xs) = map_sum id (map g) (collect xs)"
proof (induction xs)
  case Nil
  show ?case by simp
next
  case (Cons x xs)
  show ?case
  proof (cases x)
    case (Inl e)
    then show ?thesis by simp
  next
    case (Inr v)
    with Cons show ?thesis by (cases "collect xs") simp_all
  qed
qed

lemma take_col_map:
  "take_col (map_ndarray h W) j = map_sum id (map_ndarray h) (take_col W j)"
proof (cases W)
  case (Vec v)
  then show ?thesis by (simp add: take_col_def)
next
  case (Mat m)
  have n: "ncols (map (map h) m) = ncols m"
    by (cases m) (simp_all add: ncols_def)
  have l: "list_all (\<lambda>r. j < length r) (map (map h) m) = list_all (\<lambda>r. j < length r) m"
    by (simp add: list_all_iff)
  have "map (\<lambda>r. r ! j) (map (map h) m) = map h (map (\<lambda>r. r ! j) m)"
    if "list_all (\<lambda>r. j < length r) m"
    using that by (simp add: list_all_iff)
  then show ?thesis using Mat by (simp add: take_col_def n l)
qed

lemma lasso_max_Vec_scale:
  assumes "0 < c" and "get_is_pen_mask (scale_weights c W) = get_is_pen_mask W"
  shows "lasso_max E X (Vec v) fit_intercept loss_func loss_kws (Some (scale_weights c W)) =
         map_sum id (\<lambda>b. b / c) (lasso_max E X (Vec v) fit_intercept loss_func loss_kws (Some W))"
  using lasso_max_tail_scale [OF assms] by simp

text \<open>
  Claim C5, amended. For every positive \<open>c\<close> that leaves the mask of penalized
  coordinates unchanged, \<^verbatim>\<open>lasso_max\<close> with the weights \<open>c \<cdot> weights\<close> returns the bound
  for \<open>weights\<close> divided by \<open>c\<close>, and raises the same exception where the call with
  \<open>weights\<close> raises. This holds for single and for multi-response \<open>y\<close>.
\<close>
theorem lasso_max_rescaled_weights:
  assumes "0 < c" and "get_is_pen_mask (scale_weights c W) = get_is_pen_mask W"
  shows "lasso_max E X y fit_intercept loss_func loss_kws (Some (scale_weights c W)) =
         map_sum id (\<lambda>b. b / c) (lasso_max E X y fit_intercept loss_func loss_kws (Some W))"
proof (cases y)
  case (Vec v)
  then show ?thesis using lasso_max_Vec_scale [OF assms] by simp
next
  case (Mat m)
  show ?thesis
  proof (cases "is_multi_response E (Mat m)")
    case False
    then show ?thesis using Mat lasso_max_tail_scale [OF assms] by simp
  next
    case True
    define f where "f = (\<lambda>wts j. case weights_col wts j of
                   Inl e \<Rightarrow> Inl e
                 | Inr w \<Rightarrow> lasso_max E X (Vec (map (\<lambda>r. r ! j) m)) fit_intercept loss_func loss_kws w)"
    have unf: "lasso_max E X (Mat m) fit_intercept loss_func loss_kws wts =
                 (case collect (map (f wts) [0..<ncols m]) of
                    Inl e \<Rightarrow> Inl e | Inr resp_maxes \<Rightarrow> np_max resp_maxes)" for wts
      unfolding f_def by (rule lasso_max_Mat_multi [OF True])
    have col: "f (Some (scale_weights c W)) j = map_sum id (\<lambda>b. b / c) (f (Some W) j)" for j
    proof (cases "take_col W j")
      case (Inl e)
      then show ?thesis
        by (simp add: f_def weights_col_def scale_weights_def take_col_map)
    next
      case (Inr w)
      from take_col_subset [OF Inr] assms(2)
      have "get_is_pen_mask (scale_weights c w) = get_is_pen_mask w"
        unfolding mask_unchanged_iff by blast
      from lasso_max_Vec_scale [OF assms(1) this] Inr show ?thesis
        by (simp add: f_def weights_col_def scale_weights_def take_col_map del: lasso_max.simps)
    qed
    have "map (f (Some (scale_weights c W))) [0..<ncols m] =
          map (map_sum id (\<lambda>b. b / c)) (map (f (Some W)) [0..<ncols m])"
      by (simp add: col)
    then have c1: "collect (map (f (Some (scale_weights c W))) [0..<ncols m]) =
          map_sum id (map (\<lambda>b. b / c)) (collect (map (f (Some W)) [0..<ncols m]))"
      by (simp only: collect_map_sum)
    show ?thesis
      unfolding Mat unf c1
      by (cases "collect (map (f (Some W)) [0..<ncols m])")
         (simp_all add: np_max_scale [OF assms(1)])
  qed
qed

text \<open>
  Claim C5 says that \<^verbatim>\<open>lasso_max\<close> with the weights \<open>c \<cdot> weights\<close> is \<^verbatim>\<open>lasso_max\<close> with
  \<open>weights\<close> divided by \<open>c\<close>, for every positive \<open>c\<close>. The test against machine epsilon
  is not invariant under rescaling: with the gradient \<open>[1, 1]\<close>, the weights
  \<open>[1, 2\<^sup>-\<^sup>5\<^sup>1]\<close> (both penalized) and \<open>c = 1/2\<close>, the second weight becomes \<open>2\<^sup>-\<^sup>5\<^sup>2\<close>, which
  is not larger than machine epsilon, so the bound for the rescaled weights is 2 and not
  \<open>2\<^sup>5\<^sup>1 / (1/2)\<close>.
\<close>
theorem lasso_max_rescaled_weights_counterexample:
  "lasso_max example_ext [[2, 0], [0, 2]] (Vec [1, 1]) False ''lin_reg'' []
     (Some (Vec [Num 1, Num (1 / 2 ^ 51)])) = Inr (2 ^ 51) \<and>
   scale_weights (1 / 2) (Vec [Num 1, Num (1 / 2 ^ 51)]) = Vec [Num (1 / 2), Num (1 / 2 ^ 52)] \<and>
   lasso_max example_ext [[2, 0], [0, 2]] (Vec [1, 1]) False ''lin_reg'' []
     (Some (scale_weights (1 / 2) (Vec [Num 1, Num (1 / 2 ^ 51)]))) = Inr 2 \<and>
   (2 :: real) \<noteq> 2 ^ 51 / (1 / 2)"
proof -
  have g: "grad_at_zero example_ext [[2, 0], [0, 2]] (Vec [1, 1]) False ''lin_reg'' [] = Inr (Vec [1, 1])"
    by (simp add: grad_at_zero_def g0_lin_reg_def XT_matmul_def dot_def)
  have s: "\<not> is_multi_response example_ext (Vec [1, 1])"
    by (simp add: example_ext_def)
  have a: "lasso_max example_ext [[2, 0], [0, 2]] (Vec [1, 1]) False ''lin_reg'' []
     (Some (Vec [Num 1, Num (1 / 2 ^ 51)])) = Inr (2 ^ 51)"
    using lasso_max_Vec_weights [OF g s, of "[Num 1, Num (1 / 2 ^ 51)]"]
    by (simp add: is_nonzero_weight_def float_eps_def wval_def np_max_def)
  have b: "scale_weights (1 / 2) (Vec [Num 1, Num (1 / 2 ^ 51)]) = Vec [Num (1 / 2), Num (1 / 2 ^ 52)]"
    by (simp add: scale_weights_def scale_weight_def)
  have c: "lasso_max example_ext [[2, 0], [0, 2]] (Vec [1, 1]) False ''lin_reg'' []
     (Some (Vec [Num (1 / 2), Num (1 / 2 ^ 52)])) = Inr 2"
    using lasso_max_Vec_weights [OF g s, of "[Num (1 / 2), Num (1 / 2 ^ 52)]"]
    by (simp add: is_nonzero_weight_def float_eps_def wval_def np_max_def)
  show ?thesis using a c by (simp only: b) simp
qed

lemma lasso_max_masked_example:
  "lasso_max example_ext [[1, 0, 0], [0, 1, 0], [0, 0, 1]] (Vec [15, 300, 9]) False ''lin_reg'' []
     (Some (Vec [Num 1, Num 0, Num 1])) = Inr 5"
proof -
  have s: "\<not> is_multi_response example_ext (Vec [15, 300, 9])" by (simp add: example_ext_def)
  from lasso_max_Vec_weights [OF grad_at_zero_identity_design s, of "[Num 1, Num 0, Num 1]"]
  show ?thesis by (simp add: is_nonzero_weight_def float_eps_def wval_def np_max_def)
qed

theorem lasso_max_rescaled_weights_witness:
  "(0::real) < 2 \<and>
   get_is_pen_mask (scale_weights 2 (Vec [Num 1, Num 0, Num 1])) =
     get_is_pen_mask (Vec [Num 1, Num 0, Num 1]) \<and>
   lasso_max example_ext [[1, 0, 0], [0, 1, 0], [0, 0, 1]] (Vec [15, 300, 9]) False ''lin_reg'' []
     (Some (scale_weights 2 (Vec [Num 1, Num 0, Num 1]))) = Inr (5 / 2)"
proof -
  have p: "(0::real) < 2" by simp
  have m: "get_is_pen_mask (scale_weights 2 (Vec [Num 1, Num 0, Num 1])) =
     get_is_pen_mask (Vec [Num 1, Num 0, Num 1])"
    by (simp add: get_is_pen_mask_def scale_weights_def scale_weight_def is_nonzero_weight_def
        float_eps_def flat_def)
  from lasso_max_rescaled_weights [OF p m, of example_ext "[[1, 0, 0], [0, 1, 0], [0, 0, 1]]" "Vec [15, 300, 9]"
      False "''lin_reg''" "[]"] lasso_max_masked_example p m
  show ?thesis by simp
qed

section \<open>Applicability and the intercept of the cvxpy solver\<close>

lemma set_value_shape:
  "set_value var val = Inr var' \<Longrightarrow> var_shape var' = var_shape var"
  by (auto simp: set_value_def split: if_splits)

lemma solve_no_intercept:
  assumes "self_intercept t = None"
  shows "solve env t coef_init intercept_init =
           (if value_fits (var_shape (self_coef t)) coef_init
            then (Inl AttributeError, t\<lparr>self_coef := (self_coef t)\<lparr>var_data := coef_init\<rparr>\<rparr>)
            else (Inl ValueError, t))"
  using assms by (simp add: solve_def set_value_def Let_def)

lemma later_state_intercept:
  "later_state env s t \<Longrightarrow> self_intercept s = None \<Longrightarrow>
   self_intercept t = None \<and> solve_calls t = solve_calls s \<and>
   var_shape (self_coef t) = var_shape (self_coef s)"
proof (induction rule: later_state.induct)
  case at_setup
  then show ?case by simp
next
  case (after_update t params)
  then show ?case by (simp add: update_penalty_def Let_def)
next
  case (after_solve t coef_init intercept_init)
  then have t: "self_intercept t = None" by simp
  from after_solve show ?case by (simp add: solve_no_intercept [OF t])
qed

lemma setup_intercept:
  "cvxpy_setup env ztol X y loss penalty constraint fit_intercept sw = Inr s \<Longrightarrow>
   (self_intercept s = None) = (\<not> fit_intercept) \<and> solve_calls s = 0 \<and>
   var_shape (self_coef s) = fst (get_shapes_from env X y)"
  by (auto simp: cvxpy_setup_def Let_def split: if_splits sum.splits)

text \<open>
  Claim C8 says that \<^verbatim>\<open>setup\<close> raises the error of a backend that is not applicable
  (the ValueError of line 56) whenever \<^verbatim>\<open>is_applicable\<close> is false. Where cvxpy is not
  installed, \<^verbatim>\<open>is_applicable\<close> is false, but \<^verbatim>\<open>setup\<close> imports cvxpy in its first
  statement, before the check, and so raises ModuleNotFoundError.
\<close>
theorem cvxpy_setup_absent_counterexample:
  "is_applicable env_absent () None None = Inr False \<and>
   cvxpy_setup env_absent 0 [[1]] (Vec [1]) () None None True None = Inl ModuleNotFoundError"
  by (simp add: is_applicable_def is_applicable_impl_def cvxpy_setup_def env_absent_def)

text \<open>
  Claim C8, amended. \<^verbatim>\<open>is_applicable\<close> returns false, and does not raise, whenever cvxpy
  is absent or the flavor kind of the penalty is \<^verbatim>\<open>non_convex\<close> or \<^verbatim>\<open>mixed\<close>. Whenever
  \<^verbatim>\<open>is_applicable\<close> is false, \<^verbatim>\<open>setup\<close> raises before it builds anything: the ValueError
  of a backend that is not applicable if cvxpy is installed, the ModuleNotFoundError of
  its own import of cvxpy otherwise.
\<close>
theorem cvxpy_not_applicable:
  "(\<not> cvxpy_installed env \<or> get_flavor_kind env penalty = Some ''non_convex''
      \<or> get_flavor_kind env penalty = Some ''mixed''
     \<longrightarrow> is_applicable env loss penalty constraint = Inr False) \<and>
   (is_applicable env loss penalty constraint = Inr False \<longrightarrow>
      cvxpy_setup env ztol X y loss penalty constraint fit_intercept sample_weight =
        Inl (if cvxpy_installed env then ValueError else ModuleNotFoundError))"
  by (auto simp: is_applicable_def is_applicable_impl_def cvxpy_setup_def)

theorem cvxpy_not_applicable_witness:
  "get_flavor_kind (env_present ''non_convex'') None = Some ''non_convex'' \<and>
   is_applicable (env_present ''non_convex'') () None None = Inr False \<and>
   cvxpy_setup (env_present ''non_convex'') 0 [[1]] (Vec [1]) () None None True None = Inl ValueError"
  using cvxpy_not_applicable [of "env_present ''non_convex''" None "()" None 0 "[[1]]" "Vec [1]" True None]
  by (simp add: env_present_def env_absent_def)

text \<open>
  Claim C9 says that after a \<^verbatim>\<open>setup\<close> with \<^verbatim>\<open>fit_intercept=False\<close> every call of
  \<^verbatim>\<open>solve\<close> raises while it assigns the initial value of the intercept. The assignment
  of the initial value of the coefficient comes first, and the setter of cvxpy rejects
  a value that has not the shape of the variable: for a coefficient of shape \<open>(1,)\<close>
  and \<^verbatim>\<open>coef_init\<close> of shape \<open>(2,)\<close>, \<^verbatim>\<open>solve\<close> raises the ValueError of line 111, and
  the assignment of the intercept is not reached.
\<close>
theorem solve_coef_init_counterexample:
  "cvxpy_setup (env_present ''convex'') 0 [[1]] (Vec [1]) () None None False None =
     Inr \<lparr>zero_tol = 0, self_is_mr = False,
          self_coef = \<lparr>var_shape = [1], var_data = None\<rparr>, self_intercept = None,
          self_problem = (), self_penalty_config = (), solve_calls = 0\<rparr> \<and>
   set_value \<lparr>var_shape = [1], var_data = None\<rparr> (Some (Array (Vec [1, 2]))) = Inl ValueError \<and>
   solve (env_present ''convex'')
     \<lparr>zero_tol = 0, self_is_mr = False,
      self_coef = \<lparr>var_shape = [1], var_data = None\<rparr>, self_intercept = None,
      self_problem = (), self_penalty_config = (), solve_calls = 0\<rparr>
     (Some (Array (Vec [1, 2]))) None =
     (Inl ValueError,
      \<lparr>zero_tol = 0, self_is_mr = False,
       self_coef = \<lparr>var_shape = [1], var_data = None\<rparr>, self_intercept = None,
       self_problem = (), self_penalty_config = (), solve_calls = 0\<rparr>)"
  by (simp add: cvxpy_setup_def is_applicable_def is_applicable_impl_def env_present_def
      env_absent_def solve_def set_value_def value_fits_def shape_of_def)

text \<open>
  Claim C9, amended. Let \<^verbatim>\<open>setup\<close> have succeeded, and let any number of calls of
  \<^verbatim>\<open>update_penalty\<close> and \<^verbatim>\<open>solve\<close> have followed. If \<^verbatim>\<open>fit_intercept\<close> was false, then
  \<^verbatim>\<open>solve\<close> raises before the problem is solved, and the object has never called
  \<^verbatim>\<open>problem_.solve\<close>: it raises the AttributeError of the assignment to
  \<^verbatim>\<open>self.intercept_.value\<close> if \<^verbatim>\<open>coef_init\<close> is \<^verbatim>\<open>None\<close> or has the shape of the
  coefficient, and the ValueError of the assignment to \<^verbatim>\<open>self.coef_.value\<close> otherwise.
  So \<^verbatim>\<open>solve\<close> returns a solution only if \<^verbatim>\<open>fit_intercept\<close> was true.
\<close>
theorem solve_without_intercept:
  assumes "cvxpy_setup env ztol X y loss penalty constraint fit_intercept sample_weight = Inr s"
    and "later_state env s t"
  shows "(\<not> fit_intercept \<longrightarrow>
            fst (solve env t coef_init intercept_init) =
              Inl (if coef_init = None \<or>
                      map_option shape_of coef_init = Some (fst (get_shapes_from env X y))
                   then AttributeError else ValueError) \<and>
            solve_calls (snd (solve env t coef_init intercept_init)) = 0) \<and>
         ((\<exists>r. fst (solve env t coef_init intercept_init) = Inr r) \<longrightarrow> fit_intercept)"
proof -
  from setup_intercept [OF assms(1)]
  have s: "(self_intercept s = None) = (\<not> fit_intercept)" "solve_calls s = 0"
    "var_shape (self_coef s) = fst (get_shapes_from env X y)" by simp_all
  have no: "self_intercept t = None \<and> solve_calls t = 0 \<and>
            var_shape (self_coef t) = fst (get_shapes_from env X y)" if "\<not> fit_intercept"
    using later_state_intercept [OF assms(2)] s that by simp
  have f: "value_fits shp coef_init \<longleftrightarrow>
           coef_init = None \<or> map_option shape_of coef_init = Some shp" for shp
    by (cases coef_init) (simp_all add: value_fits_def)
  have a: "fst (solve env t coef_init intercept_init) =
              Inl (if coef_init = None \<or>
                      map_option shape_of coef_init = Some (fst (get_shapes_from env X y))
                   then AttributeError else ValueError) \<and>
            solve_calls (snd (solve env t coef_init intercept_init)) = 0" if "\<not> fit_intercept"
    using no [OF that] by (simp add: solve_no_intercept f)
  then show ?thesis by (cases fit_intercept) auto
qed

theorem solve_without_intercept_witness:
  "cvxpy_setup (env_present ''convex'') 0 [[1]] (Vec [1]) () None None False None =
     Inr \<lparr>zero_tol = 0, self_is_mr = False,
          self_coef = \<lparr>var_shape = [1], var_data = None\<rparr>, self_intercept = None,
          self_problem = (), self_penalty_config = (), solve_calls = 0\<rparr> \<and>
   fst (solve (env_present ''convex'')
          (update_penalty (env_present ''convex'')
             \<lparr>zero_tol = 0, self_is_mr = False,
              self_coef = \<lparr>var_shape = [1], var_data = None\<rparr>, self_intercept = None,
              self_problem = (), self_penalty_config = (), solve_calls = 0\<rparr> [])
          None None) = Inl AttributeError \<and>
   fst (solve (env_present ''convex'')
          (update_penalty (env_present ''convex'')
             \<lparr>zero_tol = 0, self_is_mr = False,
              self_coef = \<lparr>var_shape = [1], var_data = None\<rparr>, self_intercept = None,
              self_problem = (), self_penalty_config = (), solve_calls = 0\<rparr> [])
          (Some (Array (Vec [3]))) (Some (Scalar 0))) = Inl AttributeError \<and>
   fst (solve (env_present ''convex'')
          (update_penalty (env_present ''convex'')
             \<lparr>zero_tol = 0, self_is_mr = False,
              self_coef = \<lparr>var_shape = [1], var_data = None\<rparr>, self_intercept = None,
              self_problem = (), self_penalty_config = (), solve_calls = 0\<rparr> [])
          (Some (Array (Vec [3, 4]))) None) = Inl ValueError"
proof -
  let ?env = "env_present ''convex''"
  let ?s = "\<lparr>zero_tol = 0, self_is_mr = False,
          self_coef = \<lparr>var_shape = [1], var_data = None\<rparr>, self_intercept = None,
          self_problem = (), self_penalty_config = (), solve_calls = 0\<rparr> :: (unit, unit) cvxpy_solver"
  have a: "cvxpy_setup ?env 0 [[1]] (Vec [1]) () None None False None = Inr ?s"
    by (simp add: cvxpy_setup_def is_applicable_def is_applicable_impl_def env_present_def env_absent_def)
  have b: "later_state ?env ?s (update_penalty ?env ?s [])"
    by (rule later_state.after_update) (rule later_state.at_setup)
  have g: "fst (get_shapes_from ?env [[1]] (Vec [1])) = [1]"
    by (simp add: env_present_def env_absent_def)
  from solve_without_intercept [OF a b, of None None]
  have 1: "fst (solve ?env (update_penalty ?env ?s []) None None) = Inl AttributeError"
    by simp
  from solve_without_intercept [OF a b, of "Some (Array (Vec [3]))" "Some (Scalar 0)"]
  have 2: "fst (solve ?env (update_penalty ?env ?s []) (Some (Array (Vec [3]))) (Some (Scalar 0))) =
             Inl AttributeError"
    by (simp add: g shape_of_def)
  from solve_without_intercept [OF a b, of "Some (Array (Vec [3, 4]))" None]
  have 3: "fst (solve ?env (update_penalty ?env ?s []) (Some (Array (Vec [3, 4]))) None) =
             Inl ValueError"
    by (simp add: g shape_of_def)
  from a 1 2 3 show ?thesis by (intro conjI)
qed

section \<open>Rounding to float64\<close>

lemma rne_of_int: "rne (of_int m) = m"
  by (simp add: rne_def)

lemma rne_lower: "\<lfloor>y\<rfloor> \<le> rne y"
  by (simp add: rne_def Let_def)

lemma rne_upper: "rne y \<le> \<lceil>y\<rceil>"
proof (cases "y = of_int \<lfloor>y\<rfloor>")
  case True
  then have "rne y = \<lfloor>y\<rfloor>" by (metis rne_of_int)
  then show ?thesis by (simp add: floor_le_ceiling)
next
  case False
  then have "\<lceil>y\<rceil> = \<lfloor>y\<rfloor> + 1" by (simp add: ceiling_altdef)
  then show ?thesis by (simp add: rne_def Let_def)
qed

lemma powi_powr: "(2::real) powi k = 2 powr (of_int k)"
  by (simp add: powr_real_of_int')

lemma fexp_bounds:
  assumes "x \<noteq> 0"
  shows "2 ^ 52 * 2 powi fexp x \<le> \<bar>x\<bar>" and "\<bar>x\<bar> < 2 ^ 53 * 2 powi fexp x"
proof -
  define k where "k = \<lfloor>log 2 \<bar>x\<bar>\<rfloor>"
  have pos: "0 < \<bar>x\<bar>" using assms by simp
  have "\<lfloor>log 2 \<bar>x\<bar>\<rfloor> = k" by (simp add: k_def)
  then have b: "2 powr (of_int k) \<le> \<bar>x\<bar> \<and> \<bar>x\<bar> < 2 powr (of_int (k + 1))"
    using floor_log_eq_powr_iff [OF pos, of 2 k] by simp
  have e: "fexp x = k - 52" by (simp add: fexp_def k_def)
  have "k = 52 + (k - 52)" by simp
  then have "(2::real) powi k = 2 powi (52 + (k - 52))" by (rule arg_cong)
  also have "\<dots> = 2 ^ 52 * 2 powi (k - 52)" by (subst power_int_add) simp_all
  finally have k1: "(2::real) powi k = 2 ^ 52 * 2 powi (k - 52)" .
  have "k + 1 = 53 + (k - 52)" by simp
  then have "(2::real) powi (k + 1) = 2 powi (53 + (k - 52))" by (rule arg_cong)
  also have "\<dots> = 2 ^ 53 * 2 powi (k - 52)" by (subst power_int_add) simp_all
  finally have k2: "(2::real) powi (k + 1) = 2 ^ 53 * 2 powi (k - 52)" .
  show "2 ^ 52 * 2 powi fexp x \<le> \<bar>x\<bar>" using b k1 by (simp add: e powi_powr [symmetric])
  show "\<bar>x\<bar> < 2 ^ 53 * 2 powi fexp x" using b k2 by (simp add: e powi_powr [symmetric] del: of_int_add)
qed

lemma fexp_unique:
  assumes "2 ^ 52 * 2 powi e \<le> \<bar>x\<bar>" and "\<bar>x\<bar> < 2 ^ 53 * 2 powi e"
  shows "fexp x = e"
proof -
  have pos: "0 < \<bar>x\<bar>"
    using assms(1) by (smt (verit) zero_less_power_int zero_less_mult_iff zero_less_power)
  have "e + 52 = 52 + e" by simp
  then have "(2::real) powi (e + 52) = 2 powi (52 + e)" by (rule arg_cong)
  also have "\<dots> = 2 ^ 52 * 2 powi e" by (subst power_int_add) simp_all
  finally have k1: "(2::real) powi (e + 52) = 2 ^ 52 * 2 powi e" .
  have "e + 52 + 1 = 53 + e" by simp
  then have "(2::real) powi (e + 52 + 1) = 2 powi (53 + e)" by (rule arg_cong)
  also have "\<dots> = 2 ^ 53 * 2 powi e" by (subst power_int_add) simp_all
  finally have k2: "(2::real) powi (e + 52 + 1) = 2 ^ 53 * 2 powi e" .
  have "2 powr (of_int (e + 52)) \<le> \<bar>x\<bar> \<and> \<bar>x\<bar> < 2 powr (of_int (e + 52 + 1))"
    using assms k1 k2 by (simp only: powi_powr [symmetric]) 
  then have "\<lfloor>log 2 \<bar>x\<bar>\<rfloor> = e + 52"
    using floor_log_eq_powr_iff [OF pos, of 2 "e + 52"] by simp
  then show ?thesis by (simp add: fexp_def)
qed

lemma fl64_zero: "fl64 0 = 0"
  by (simp add: fl64_def)

lemma fl64_eval:
  assumes "2 ^ 52 * 2 powi e \<le> \<bar>x\<bar>" and "\<bar>x\<bar> < 2 ^ 53 * 2 powi e"
  shows "fl64 x = of_int (rne (x / 2 powi e)) * 2 powi e"
proof -
  have "0 < \<bar>x\<bar>"
    using assms(1) by (smt (verit) zero_less_power_int zero_less_mult_iff zero_less_power)
  then have "x \<noteq> 0" by simp
  then show ?thesis by (simp add: fl64_def fexp_unique [OF assms])
qed

lemma fl64_dyadic:
  assumes "\<bar>m\<bar> < 2 ^ 53"
  shows "fl64 (of_int m * 2 powi e) = of_int m * 2 powi e"
proof (cases "m = 0")
  case True
  then show ?thesis by (simp add: fl64_zero)
next
  case False
  define x :: real where "x = of_int m * 2 powi e"
  have x0: "x \<noteq> 0" using False by (simp add: x_def)
  define E where "E = fexp x"
  have ax: "\<bar>x\<bar> = of_int \<bar>m\<bar> * 2 powi e" by (simp add: x_def abs_mult)
  have "of_int \<bar>m\<bar> < (2::real) ^ 53"
    using assms by (metis of_int_less_iff of_int_numeral of_int_power)
  then have "\<bar>x\<bar> < 2 ^ 53 * 2 powi e" by (simp add: ax)
  moreover have "2 ^ 52 * 2 powi E \<le> \<bar>x\<bar>" using fexp_bounds(1) [OF x0] by (simp add: E_def)
  ultimately have "(2::real) ^ 52 * 2 powi E < 2 ^ 53 * 2 powi e" by simp
  then have "(2::real) powi E < 2 powi (1 + e)" by (simp add: power_int_add)
  then have "\<not> 1 + e \<le> E"
    using power_int_increasing [of "1 + e" E "2::real"] by auto
  then have le: "E \<le> e" by simp
  define n where "n = nat (e - E)"
  have "e = int n + E" using le by (simp add: n_def)
  then have "(2::real) powi e = 2 powi (int n + E)" by (rule arg_cong)
  also have "\<dots> = 2 ^ n * 2 powi E" by (subst power_int_add) simp_all
  finally have pe: "(2::real) powi e = 2 ^ n * 2 powi E" .
  have "x / 2 powi E = of_int (m * 2 ^ n)" by (simp add: x_def pe)
  then have "rne (x / 2 powi E) = m * 2 ^ n" by (simp only: rne_of_int)
  then have "fl64 x = of_int (m * 2 ^ n) * 2 powi E" using x0 by (simp add: fl64_def E_def)
  also have "\<dots> = x" by (simp add: x_def pe)
  finally show ?thesis by (simp add: x_def)
qed

lemma rne_ge: "of_int n \<le> y \<Longrightarrow> n \<le> rne y"
  using rne_lower [of y] by (meson le_floor_iff order_trans)

lemma rne_le: "y \<le> of_int n \<Longrightarrow> rne y \<le> n"
  using rne_upper [of y] by (meson ceiling_le_iff order_trans)

lemma fl64_pos:
  assumes "0 < x"
  shows "0 < fl64 x"
proof -
  have x0: "x \<noteq> 0" using assms by simp
  define y where "y = x / 2 powi fexp x"
  have "2 ^ 52 * 2 powi fexp x \<le> x" using fexp_bounds(1) [OF x0] assms by simp
  then have "(2::real) ^ 52 \<le> y" by (simp add: y_def pos_le_divide_eq)
  then have "of_int 1 \<le> y" by simp
  then have "1 \<le> rne y" by (rule rne_ge)
  then show ?thesis using x0 by (simp add: fl64_def y_def)
qed

lemma fl64_neg:
  assumes "x < 0"
  shows "fl64 x < 0"
proof -
  have x0: "x \<noteq> 0" using assms by simp
  define y where "y = x / 2 powi fexp x"
  have "2 ^ 52 * 2 powi fexp x \<le> - x" using fexp_bounds(1) [OF x0] assms by simp
  then have "(2::real) ^ 52 \<le> (- x) / 2 powi fexp x" by (simp only: pos_le_divide_eq zero_less_power_int zero_less_numeral)
  then have "y \<le> of_int (- 1)" by (simp add: y_def)
  then have "rne y \<le> - 1" by (rule rne_le)
  then have "of_int (rne y) < (0::real)" by simp
  then show ?thesis using x0 by (simp add: fl64_def y_def mult_neg_pos)
qed

lemma fl64_pos_iff: "0 < fl64 x \<longleftrightarrow> 0 < x"
  using fl64_pos [of x] fl64_neg [of x] fl64_zero by (cases "x = 0"; cases "0 < x") auto

lemma fl64_idem: "fl64 (fl64 x) = fl64 x"
proof (cases "x = 0")
  case True
  then show ?thesis by (simp add: fl64_zero)
next
  case False
  define E where "E = fexp x"
  define y where "y = x / 2 powi E"
  define k where "k = rne y"
  have fx: "fl64 x = of_int k * 2 powi E" using False by (simp add: fl64_def E_def y_def k_def)
  have "\<bar>x\<bar> < 2 ^ 53 * 2 powi E" using fexp_bounds(2) [OF False] by (simp add: E_def)
  then have "\<bar>y\<bar> < 2 ^ 53" by (simp add: y_def pos_divide_less_eq)
  then have b: "of_int (- (2 ^ 53)) \<le> y" "y \<le> of_int (2 ^ 53)" by auto
  have lo: "- (2 ^ 53) \<le> k" unfolding k_def using b(1) by (rule rne_ge)
  have up: "k \<le> 2 ^ 53" unfolding k_def using b(2) by (rule rne_le)
  consider "\<bar>k\<bar> < 2 ^ 53" | "k = 2 ^ 53" | "k = - (2 ^ 53)" using up lo by linarith
  then show ?thesis
  proof cases
    case 1
    then show ?thesis by (simp only: fx fl64_dyadic)
  next
    case 2
    have "of_int k * (2::real) powi E = of_int (2 ^ 52) * 2 powi (1 + E)"
      by (simp add: 2 power_int_add)
    moreover have "\<bar>(2::int) ^ 52\<bar> < 2 ^ 53" by simp
    ultimately show ?thesis by (simp only: fx fl64_dyadic)
  next
    case 3
    have "of_int k * (2::real) powi E = of_int (- (2 ^ 52)) * 2 powi (1 + E)"
      by (simp add: 3 power_int_add)
    moreover have "\<bar>- ((2::int) ^ 52)\<bar> < 2 ^ 53" by simp
    ultimately show ?thesis by (simp only: fx fl64_dyadic)
  qed
qed

text \<open>Two ties: \<open>2\<^sup>5\<^sup>4 - 1\<close> lies halfway between the float64 numbers \<open>2\<^sup>5\<^sup>4 - 2\<close> and
  \<open>2\<^sup>5\<^sup>4\<close>, and \<open>2\<^sup>5\<^sup>3 + 1\<close> halfway between \<open>2\<^sup>5\<^sup>3\<close> and \<open>2\<^sup>5\<^sup>3 + 2\<close>.\<close>

lemma fl64_half: "fl64 (1 / 2) = 1 / 2"
  using fl64_dyadic [of 1 "- 1"] by simp

lemma fl64_tie_up: "fl64 (2 ^ 54 - 1) = 2 ^ 54"
proof -
  have "fl64 (2 ^ 54 - 1) = of_int (rne ((2 ^ 54 - 1) / 2 powi 1)) * 2 powi 1"
    by (rule fl64_eval) simp_all
  moreover have "rne ((2 ^ 54 - 1) / 2 powi 1) = 2 ^ 53"
    by (simp add: rne_def Let_def)
  ultimately show ?thesis by simp
qed

lemma fl64_tie_down: "fl64 (2 ^ 53 + 1) = 2 ^ 53"
proof -
  have "fl64 (2 ^ 53 + 1) = of_int (rne ((2 ^ 53 + 1) / 2 powi 1)) * 2 powi 1"
    by (rule fl64_eval) simp_all
  moreover have "rne ((2 ^ 53 + 1) / 2 powi 1) = 2 ^ 52"
    by (simp add: rne_def Let_def)
  ultimately show ?thesis by simp
qed

section \<open>The simplex projection: the selected index\<close>

lemma cumsum_acc_length: "length (cumsum_acc a xs) = length xs"
  by (induction xs arbitrary: a) simp_all

lemma np_cumsum_length: "length (np_cumsum xs) = length xs"
  by (cases xs) (simp_all add: np_cumsum_def cumsum_acc_length)

lemma np_cumsum_first: "xs \<noteq> [] \<Longrightarrow> np_cumsum xs ! 0 = xs ! 0"
  by (cases xs) (simp_all add: np_cumsum_def)



lemma simplex_u_length: "length (simplex_u v) = length v"
  by (simp add: simplex_u_def)

lemma simplex_cssv_length: "length (simplex_cssv v z) = length v"
  by (simp add: simplex_cssv_def np_cumsum_length simplex_u_length)

lemma simplex_ind_length: "length (simplex_ind v) = length v"
  by (simp add: simplex_ind_def)

lemma simplex_cond_length: "length (simplex_cond v z) = length v"
  by (simp add: simplex_cond_def simplex_u_length simplex_cssv_length simplex_ind_length)

lemma simplex_ind_nth: "k < length v \<Longrightarrow> simplex_ind v ! k = real k + 1"
  by (simp add: simplex_ind_def)

lemma simplex_cond_nth:
  "k < length v \<Longrightarrow>
   simplex_cond v z ! k =
     (0 < fl64 (simplex_u v ! k - fl64 (simplex_cssv v z ! k / (real k + 1))))"
  by (simp add: simplex_cond_def simplex_u_length simplex_cssv_length simplex_ind_length
      simplex_ind_nth)




lemma mask_select_filter_upt:
  assumes "length xs = length bs"
  shows "mask_select xs bs = map ((!) xs) (filter ((!) bs) [0..<length xs])"
proof -
  have "zip xs bs = map (\<lambda>i. (xs ! i, bs ! i)) [0..<length xs]"
    using assms by (intro nth_equalityI) simp_all
  then have "filter snd (zip xs bs) = map (\<lambda>i. (xs ! i, bs ! i)) (filter ((!) bs) [0..<length xs])"
    by (simp add: filter_map comp_def)
  then show ?thesis by (simp add: mask_select_def comp_def)
qed

lemma py_last_mask_select:
  assumes "length xs = length bs" and "filter ((!) bs) [0..<length xs] \<noteq> []"
  shows "py_last (mask_select xs bs) = Inr (xs ! last (filter ((!) bs) [0..<length xs]))"
  using assms(2) by (simp add: py_last_def mask_select_filter_upt [OF assms(1)] last_map)

lemma py_last_mask_select_none:
  assumes "length xs = length bs" and "filter ((!) bs) [0..<length xs] = []"
  shows "py_last (mask_select xs bs) = Inl IndexError"
  using assms(2) by (simp add: py_last_def mask_select_filter_upt [OF assms(1)])

lemma last_filter_upt:
  "filter P [0..<n] \<noteq> [] \<Longrightarrow>
   last (filter P [0..<n]) < n \<and> P (last (filter P [0..<n])) \<and>
   (\<forall>j. last (filter P [0..<n]) < j \<and> j < n \<longrightarrow> \<not> P j)"
proof (induction n)
  case 0
  then show ?case by simp
next
  case (Suc n)
  show ?case
  proof (cases "P n")
    case True
    then have "last (filter P [0..<Suc n]) = n" by simp
    then show ?thesis using True by (simp only: simp_thms) arith
  next
    case False
    with Suc.prems have ne: "filter P [0..<n] \<noteq> []" by simp
    from False have eq: "filter P [0..<Suc n] = filter P [0..<n]" by simp
    from Suc.IH [OF ne] False show ?thesis
      unfolding eq by (metis less_Suc_eq)
  qed
qed

lemma project_simplex_char:
  fixes v :: "real list" and z :: real
  defines "P \<equiv> (!) (simplex_cond v z)"
  shows "project_simplex v z =
           (if filter P [0..<length v] = [] then Inl IndexError
            else Inr (map (\<lambda>x. max (fl64 (x - fl64 (simplex_cssv v z ! last (filter P [0..<length v])
                                        / (real (last (filter P [0..<length v])) + 1)))) 0) v))"
proof (cases "filter P [0..<length v] = []")
  case True
  have "py_last (mask_select (simplex_ind v) (simplex_cond v z)) = Inl IndexError"
    using True unfolding P_def
    by (intro py_last_mask_select_none) (simp_all add: simplex_ind_length simplex_cond_length)
  with True show ?thesis by (simp add: project_simplex_def)
next
  case False
  let ?K = "last (filter P [0..<length v])"
  from last_filter_upt [OF False] have K: "?K < length v" by simp
  have 1: "py_last (mask_select (simplex_ind v) (simplex_cond v z)) = Inr (simplex_ind v ! ?K)"
    using False unfolding P_def
    using py_last_mask_select [of "simplex_ind v" "simplex_cond v z"]
    by (simp add: simplex_ind_length simplex_cond_length)
  have 2: "py_last (mask_select (simplex_cssv v z) (simplex_cond v z)) = Inr (simplex_cssv v z ! ?K)"
    using False unfolding P_def
    using py_last_mask_select [of "simplex_cssv v z" "simplex_cond v z"]
    by (simp add: simplex_cssv_length simplex_cond_length)
  show ?thesis
    using False K by (simp add: project_simplex_def 1 2 simplex_ind_nth)
qed

lemma project_simplex_nonneg:
  assumes "project_simplex v z = Inr w"
  shows "length w = length v \<and> (\<forall>x\<in>set w. 0 \<le> x)"
  using assms by (auto simp: project_simplex_char split: if_splits)

lemma simplex_cond_first:
  assumes "v \<noteq> []"
  shows "simplex_cond v z ! 0 = (fl64 (simplex_u v ! 0 - z) < simplex_u v ! 0)"
proof -
  have u: "simplex_u v \<noteq> []" using assms simplex_u_length [of v] by auto
  have "simplex_cssv v z ! 0 = fl64 (simplex_u v ! 0 - z)"
    using assms u by (simp add: simplex_cssv_def np_cumsum_length simplex_u_length np_cumsum_first)
  moreover have "0 < length v" using assms by simp
  ultimately show ?thesis by (simp add: simplex_cond_nth fl64_idem fl64_pos_iff)
qed

lemma simplex_selection_nonempty:
  assumes "v \<noteq> []" and "fl64 (simplex_u v ! 0 - z) < simplex_u v ! 0"
  shows "filter ((!) (simplex_cond v z)) [0..<length v] \<noteq> []"
proof -
  have "0 \<in> set [0..<length v]" using assms(1) by simp
  moreover have "simplex_cond v z ! 0" using simplex_cond_first [OF assms(1)] assms(2) by simp
  ultimately have "0 \<in> set (filter ((!) (simplex_cond v z)) [0..<length v])" by simp
  then show ?thesis by (metis empty_iff empty_set)
qed

lemma simplex_selection_all_false:
  assumes "\<not> fl64 (simplex_u [x] ! 0 - z) < simplex_u [x] ! 0"
  shows "project_simplex [x] z = Inl IndexError"
proof -
  have "\<not> simplex_cond [x] z ! 0" using simplex_cond_first [of "[x]" z] assms by simp
  then have "filter ((!) (simplex_cond [x] z)) [0..<length [x]] = []" by simp
  then show ?thesis by (subst project_simplex_char) simp
qed










text \<open>Numbers that are float64 numbers already are not moved.\<close>

lemma fl64_one: "fl64 1 = 1"
  using fl64_dyadic [of 1 0] by simp

lemma fl64_two: "fl64 2 = 2"
  using fl64_dyadic [of 2 0] by simp

lemma fl64_quarter: "fl64 (1 / 4) = 1 / 4"
  using fl64_dyadic [of 1 "- 2"] by simp

lemma fl64_three_quarters: "fl64 (3 / 4) = 3 / 4"
  using fl64_dyadic [of 3 "- 2"] by simp

lemma fl64_three_halves: "fl64 (3 / 2) = 3 / 2"
  using fl64_dyadic [of 3 "- 1"] by simp

lemma fl64_five_halves: "fl64 (5 / 2) = 5 / 2"
  using fl64_dyadic [of 5 "- 1"] by simp

lemma fl64_minus_half: "fl64 (- (1 / 2)) = - (1 / 2)"
  using fl64_dyadic [of "- 1" "- 1"] by simp

lemma fl64_minus_quarter: "fl64 (- (1 / 4)) = - (1 / 4)"
  using fl64_dyadic [of "- 1" "- 2"] by simp

lemma fl64_pow53: "fl64 9007199254740992 = 9007199254740992"
  using fl64_dyadic [of "2 ^ 52" 1] by simp

lemma fl64_pow54: "fl64 18014398509481984 = 18014398509481984"
  using fl64_dyadic [of "2 ^ 52" 2] by simp

lemma fl64_below_pow54: "fl64 18014398509481983 = 18014398509481984"
  using fl64_tie_up by simp

lemma fl64_above_pow53: "fl64 9007199254740993 = 9007199254740992"
  using fl64_tie_down by simp

lemmas fl64_values =
  fl64_zero fl64_one fl64_two fl64_half fl64_quarter fl64_three_quarters fl64_three_halves
  fl64_five_halves fl64_minus_half fl64_minus_quarter fl64_pow53 fl64_pow54
  fl64_below_pow54 fl64_above_pow53

lemmas simplex_defs =
  project_simplex_def simplex_cond_def simplex_cssv_def simplex_ind_def
  simplex_u_def np_cumsum_def mask_select_def py_last_def

section \<open>The claims about the projections\<close>

text \<open>
  Claim C10 says that for every vector \<open>v\<close> with at least one entry and every \<open>z > 0\<close> the
  condition holds at \<open>k = 1\<close>, so that \<^verbatim>\<open>project_simplex\<close> never fails with an empty
  selection. For \<open>v = [2\<^sup>5\<^sup>4]\<close> and \<open>z = 1\<close> the difference \<open>2\<^sup>5\<^sup>4 - 1\<close> is rounded to
  \<open>2\<^sup>5\<^sup>4\<close>, so \<^verbatim>\<open>cssv\<close> is \<open>[2\<^sup>5\<^sup>4]\<close>, \<^verbatim>\<open>cond\<close> is \<open>[False]\<close>, \<^verbatim>\<open>ind[cond]\<close> is empty and
  \<^verbatim>\<open>ind[cond][-1]\<close> raises IndexError.
\<close>
theorem simplex_selection_absorbed_counterexample:
  "[2 ^ 54 :: real] \<noteq> [] \<and> (0 :: real) < 1 \<and>
   simplex_cond [2 ^ 54] 1 = [False] \<and>
   mask_select (simplex_ind [2 ^ 54]) (simplex_cond [2 ^ 54] 1) = [] \<and>
   project_simplex [2 ^ 54] 1 = Inl IndexError"
  by (simp add: simplex_defs fl64_values)

text \<open>
  Claim C10, amended. For a vector \<open>v\<close> with at least one entry, the first entry of
  \<^verbatim>\<open>cond\<close> is the test whether the rounded difference \<open>u\<^sub>1 - z\<close> is smaller than \<open>u\<^sub>1\<close>,
  where \<open>u\<^sub>1\<close> is the first entry of \<open>u\<close>, the largest entry of \<open>v\<close>. Where that
  difference is computed without rounding, the test is \<open>z > 0\<close>. Whenever the test
  holds, the selection \<^verbatim>\<open>ind[cond]\<close> is not empty, its last entry exists, and
  \<^verbatim>\<open>project_simplex\<close> returns a vector instead of raising IndexError.
\<close>
theorem simplex_selection_defined:
  assumes "v \<noteq> []"
  shows "simplex_cond v z ! 0 = (fl64 (simplex_u v ! 0 - z) < simplex_u v ! 0) \<and>
         (fl64 (simplex_u v ! 0 - z) = simplex_u v ! 0 - z \<longrightarrow> simplex_cond v z ! 0 = (0 < z)) \<and>
         (fl64 (simplex_u v ! 0 - z) < simplex_u v ! 0 \<longrightarrow>
            mask_select (simplex_ind v) (simplex_cond v z) \<noteq> [] \<and>
            (\<exists>w. project_simplex v z = Inr w))"
proof -
  have "mask_select (simplex_ind v) (simplex_cond v z) \<noteq> [] \<and> (\<exists>w. project_simplex v z = Inr w)"
    if z: "fl64 (simplex_u v ! 0 - z) < simplex_u v ! 0"
  proof -
    have ne: "filter ((!) (simplex_cond v z)) [0..<length v] \<noteq> []"
      by (rule simplex_selection_nonempty [OF assms z])
    have "mask_select (simplex_ind v) (simplex_cond v z) =
            map ((!) (simplex_ind v)) (filter ((!) (simplex_cond v z)) [0..<length (simplex_ind v)])"
      by (rule mask_select_filter_upt) (simp add: simplex_ind_length simplex_cond_length)
    with ne have "mask_select (simplex_ind v) (simplex_cond v z) \<noteq> []"
      by (simp add: simplex_ind_length)
    moreover have "\<exists>w. project_simplex v z = Inr w"
      using ne by (simp add: project_simplex_char)
    ultimately show ?thesis by simp
  qed
  moreover have "simplex_cond v z ! 0 = (0 < z)"
    if "fl64 (simplex_u v ! 0 - z) = simplex_u v ! 0 - z"
    using simplex_cond_first [OF assms, of z] that by simp
  ultimately show ?thesis using simplex_cond_first [OF assms, of z] by simp
qed

theorem simplex_selection_defined_witness:
  "[1 / 2, 2 :: real] \<noteq> [] \<and> simplex_u [1 / 2, 2] ! 0 = 2 \<and> fl64 (2 - 1) = 1 \<and>
   simplex_cond [1 / 2, 2] 1 ! 0 \<and>
   mask_select (simplex_ind [1 / 2, 2]) (simplex_cond [1 / 2, 2] 1) = [1] \<and>
   project_simplex [1 / 2, 2] 1 = Inr [0, 1] \<and>
   simplex_u [2 ^ 54] ! 0 = 2 ^ 54 \<and> fl64 (2 ^ 54 - 1) = 2 ^ 54 \<and>
   \<not> simplex_cond [2 ^ 54] 1 ! 0"
proof -
  have ne: "[1 / 2, 2 :: real] \<noteq> []" by simp
  have u: "simplex_u [1 / 2, 2] ! 0 = 2" by (simp add: simplex_u_def)
  have f: "fl64 (2 - 1) = 1" by (simp add: fl64_values)
  have m: "mask_select (simplex_ind [1 / 2, 2]) (simplex_cond [1 / 2, 2] 1) = [1]"
    by (simp add: simplex_defs fl64_values)
  have p: "project_simplex [1 / 2, 2] 1 = Inr [0, 1]"
    by (simp add: simplex_defs fl64_values)
  from simplex_selection_defined [OF ne, of 1] u f
  have c: "simplex_cond [1 / 2, 2] 1 ! 0" by simp
  have ne': "[2 ^ 54 :: real] \<noteq> []" by simp
  have u': "simplex_u [2 ^ 54] ! 0 = 2 ^ 54" by (simp add: simplex_u_def)
  from simplex_selection_defined [OF ne', of 1] u' fl64_tie_up
  have c': "\<not> simplex_cond [2 ^ 54] 1 ! 0" by simp
  from ne u f c m p u' fl64_tie_up c' show ?thesis by (intro conjI)
qed




text \<open>
  Claim C7. The spec takes \<^verbatim>\<open>project_l1_ball(v, z)\<close> to be the Euclidean projection onto
  the L1 ball of radius \<open>z\<close>, which leaves every \<open>v\<close> with \<open>\<parallel>v\<parallel>\<^sub>1 \<le> z\<close> unchanged. The code
  has no case for a vector inside the ball: it always projects \<open>\<bar>v\<bar>\<close> onto the simplex of
  radius \<open>z\<close>. For \<open>v = [1/2]\<close> and \<open>z = 1\<close> the norm of \<open>v\<close> is \<open>1/2 \<le> 1\<close>, and the code
  returns \<open>[1]\<close>; no operation rounds at this input. The lemma that follows states what
  the code does guarantee whenever it returns: every coordinate is zero or has the sign
  of the input.
\<close>
theorem project_l1_ball_inside_moved:
  "sum_list (map abs [1 / 2 :: real]) \<le> 1 \<and> project_l1_ball [1 / 2] 1 = Inr [1]"
  by (simp add: project_l1_ball_def simplex_defs fl64_values)

lemma project_l1_ball_sign:
  assumes "project_l1_ball v z = Inr w"
  shows "length w = length v \<and> (\<forall>i<length v. w ! i = 0 \<or> sgn (w ! i) = sgn (v ! i))"
proof -
  from assms obtain p where p: "project_simplex (map abs v) z = Inr p"
    and w: "w = map2 (*) (map sgn v) p"
    by (auto simp: project_l1_ball_def split: sum.splits)
  from project_simplex_nonneg [OF p] have len: "length p = length v"
    and nn: "\<forall>x\<in>set p. 0 \<le> x" by simp_all
  have nth: "w ! i = sgn (v ! i) * p ! i" if "i < length v" for i
    using that len by (simp add: w)
  have "w ! i = 0 \<or> sgn (w ! i) = sgn (v ! i)" if "i < length v" for i
  proof (cases "p ! i = 0")
    case True
    then show ?thesis using nth [OF that] by simp
  next
    case False
    moreover have "0 \<le> p ! i" using nn len that by (metis nth_mem)
    ultimately have "0 < p ! i" by simp
    then show ?thesis using nth [OF that] by (simp add: sgn_mult)
  qed
  then show ?thesis using len by (simp add: w)
qed

end
